theory Spec2Isabelle
  imports Main
begin

section \<open>Values carried by the gateway\<close>

text \<open>
  The payloads typed \<open>Dict[str, Any]\<close> in the source are JSON documents. A Python
  \<open>dict\<close> keeps its insertion order, so an object is an association list.
\<close>

datatype json =
    JNull
  | JBool bool
  | JInt int
  | JStr string
  | JList "json list"
  | JObj "(string \<times> json) list"

text \<open>\<open>d.get(k)\<close> on a JSON object; anything that is not an object has no keys.\<close>

fun json_get :: "json \<Rightarrow> string \<Rightarrow> json option" where
  "json_get (JObj kvs) k = map_of kvs k"
| "json_get _ k = None"

fun json_keys :: "json \<Rightarrow> string list" where
  "json_keys (JObj kvs) = map fst kvs"
| "json_keys _ = []"

section \<open>The stream context (\<open>src/api/handlers/base/stream_context.py\<close>)\<close>

text \<open>
  The dataclass \<open>StreamContext\<close>, field by field, in the order of the source. Python's
  \<open>int\<close> is unbounded, so counters and the status code are \<open>int\<close>; \<open>Optional[str]\<close> is
  \<open>string option\<close>; the header dictionaries are maps.
\<close>

record StreamContext =
  model :: string
  api_format :: string
  provider_name :: "string option"
  provider_id :: "string option"
  endpoint_id :: "string option"
  key_id :: "string option"
  attempt_id :: "string option"
  provider_api_format :: "string option"
  mapped_model :: "string option"
  input_tokens :: int
  output_tokens :: int
  cached_tokens :: int
  cache_creation_tokens :: int
  collected_text :: string
  status_code :: int
  error_message :: "string option"
  has_completion :: bool
  response_headers :: "string \<rightharpoonup> string"
  provider_request_headers :: "string \<rightharpoonup> string"
  provider_request_body :: "json option"
  data_count :: int
  chunk_count :: int
  parsed_chunks :: "json list"

text \<open>
  The generated constructor \<open>StreamContext(model, api_format)\<close>: every other field takes
  the default the dataclass declares.
\<close>

definition StreamContext_init :: "string \<Rightarrow> string \<Rightarrow> StreamContext" where
  "StreamContext_init m f =
     \<lparr> model = m, api_format = f,
       provider_name = None, provider_id = None, endpoint_id = None, key_id = None,
       attempt_id = None, provider_api_format = None,
       mapped_model = None,
       input_tokens = 0, output_tokens = 0, cached_tokens = 0, cache_creation_tokens = 0,
       collected_text = [],
       status_code = 200, error_message = None, has_completion = False,
       response_headers = Map.empty, provider_request_headers = Map.empty,
       provider_request_body = None,
       data_count = 0, chunk_count = 0, parsed_chunks = [] \<rparr>"

text \<open>\<open>reset_for_retry\<close>: the fourteen assignments of the source, in its order.\<close>

definition reset_for_retry :: "StreamContext \<Rightarrow> StreamContext" where
  "reset_for_retry c =
     c\<lparr> parsed_chunks := [],
        chunk_count := 0,
        data_count := 0,
        has_completion := False,
        collected_text := [],
        input_tokens := 0,
        output_tokens := 0,
        cached_tokens := 0,
        cache_creation_tokens := 0,
        error_message := None,
        status_code := 200,
        response_headers := Map.empty,
        provider_request_headers := Map.empty,
        provider_request_body := None \<rparr>"

text \<open>\<open>update_provider_info\<close>; \<open>provider_api_format\<close> defaults to \<open>None\<close> at the call.\<close>

definition update_provider_info ::
  "StreamContext \<Rightarrow> string \<Rightarrow> string \<Rightarrow> string \<Rightarrow> string \<Rightarrow> string option \<Rightarrow> StreamContext" where
  "update_provider_info c pname pid eid kid pfmt =
     c\<lparr> provider_name := Some pname,
        provider_id := Some pid,
        endpoint_id := Some eid,
        key_id := Some kid,
        provider_api_format := pfmt \<rparr>"

text \<open>
  \<open>update_usage\<close>: four guarded assignments, run one after the other. An argument left
  out at the call is \<open>None\<close>.
\<close>

definition update_usage ::
  "StreamContext \<Rightarrow> int option \<Rightarrow> int option \<Rightarrow> int option \<Rightarrow> int option \<Rightarrow> StreamContext" where
  "update_usage c inp outp cached creation =
     (let c1 = (case inp of
                  Some v \<Rightarrow> if 0 < v \<or> input_tokens c = 0 then c\<lparr>input_tokens := v\<rparr> else c
                | None \<Rightarrow> c);
          c2 = (case outp of
                  Some v \<Rightarrow> if 0 < v \<or> output_tokens c1 = 0 then c1\<lparr>output_tokens := v\<rparr> else c1
                | None \<Rightarrow> c1);
          c3 = (case cached of
                  Some v \<Rightarrow> if 0 < v \<or> cached_tokens c2 = 0 then c2\<lparr>cached_tokens := v\<rparr> else c2
                | None \<Rightarrow> c2);
          c4 = (case creation of
                  Some v \<Rightarrow>
                    if 0 < v \<or> cache_creation_tokens c3 = 0
                    then c3\<lparr>cache_creation_tokens := v\<rparr> else c3
                | None \<Rightarrow> c3)
      in c4)"

definition mark_failed :: "StreamContext \<Rightarrow> int \<Rightarrow> string \<Rightarrow> StreamContext" where
  "mark_failed c code msg = c\<lparr> status_code := code, error_message := Some msg \<rparr>"

definition is_success :: "StreamContext \<Rightarrow> bool" where
  "is_success c = (status_code c < 400)"

text \<open>\<open>build_response_body\<close>: the dictionary literal of the source, key by key.\<close>

definition build_response_body :: "StreamContext \<Rightarrow> int \<Rightarrow> json" where
  "build_response_body c response_time_ms =
     JObj [ (''chunks'', JList (parsed_chunks c)),
            (''metadata'',
               JObj [ (''stream'', JBool True),
                      (''total_chunks'', JInt (int (length (parsed_chunks c)))),
                      (''data_count'', JInt (data_count c)),
                      (''has_completion'', JBool (has_completion c)),
                      (''response_time_ms'', JInt response_time_ms) ]) ]"

text \<open>A context in the middle of an attempt, used to run the operations on.\<close>

definition busy_context :: StreamContext where
  "busy_context =
     (update_provider_info (StreamContext_init ''claude-3'' ''CLAUDE'')
        ''acme'' ''p-1'' ''e-1'' ''k-1'' (Some ''OPENAI''))
       \<lparr> attempt_id := Some ''a-1'', mapped_model := Some ''claude-3-mapped'',
         input_tokens := 7, output_tokens := 9, cached_tokens := 2,
         cache_creation_tokens := 4, collected_text := ''partial answer'',
         status_code := 502, error_message := Some ''bad gateway'',
         has_completion := True, data_count := 3, chunk_count := 3,
         parsed_chunks := [JObj [(''type'', JStr ''message_start'')], JObj []] \<rparr>"

section \<open>Cache-creation tokens (\<open>src/api/handlers/base/utils.py\<close>)\<close>

text \<open>
  A usage block is typed \<open>Dict[str, Any]\<close>: a field holds whatever the provider's JSON
  held. The values are those of a decoded JSON document. A finite float is the number
  \<open>m * 2 ^ e\<close> it stands for, written \<open>Finite m e\<close>; the other floats are the two
  infinities and the not-a-number value.
\<close>

datatype py_error = TypeError | ValueError | OverflowError

datatype pyfloat = Finite int int | Infinite bool | NaN

datatype pyval =
    PyNone
  | PyBool bool
  | PyInt int
  | PyFloat pyfloat
  | PyStr string
  | PyList "pyval list"
  | PyDict "(string \<times> pyval) list"

text \<open>
  \<open>int(x)\<close> on a finite float drops the fraction, towards zero.
\<close>

definition float_trunc :: "int \<Rightarrow> int \<Rightarrow> int" where
  "float_trunc m e =
     (if 0 \<le> e then m * 2 ^ nat e
      else if 0 \<le> m then m div 2 ^ nat (- e)
      else - ((- m) div 2 ^ nat (- e)))"

text \<open>
  \<open>int(x)\<close>. It raises \<open>TypeError\<close> on \<open>None\<close>, a list and a dictionary,
  \<open>OverflowError\<close> on an infinity and \<open>ValueError\<close> on not-a-number and on a string
  that is not an integer literal. What it reads from a string is the argument
  \<open>int_of_str\<close> (\<open>None\<close> where it raises), so everything below holds whatever
  literals Python accepts.
\<close>

fun py_int :: "(string \<Rightarrow> int option) \<Rightarrow> pyval \<Rightarrow> py_error + int" where
  "py_int int_of_str PyNone = Inl TypeError"
| "py_int int_of_str (PyBool b) = Inr (if b then 1 else 0)"
| "py_int int_of_str (PyInt i) = Inr i"
| "py_int int_of_str (PyFloat (Finite m e)) = Inr (float_trunc m e)"
| "py_int int_of_str (PyFloat (Infinite negative)) = Inl OverflowError"
| "py_int int_of_str (PyFloat NaN) = Inl ValueError"
| "py_int int_of_str (PyStr s) =
     (case int_of_str s of None \<Rightarrow> Inl ValueError | Some i \<Rightarrow> Inr i)"
| "py_int int_of_str (PyList xs) = Inl TypeError"
| "py_int int_of_str (PyDict kvs) = Inl TypeError"

text \<open>\<open>usage.get(k, default)\<close>.\<close>

definition usage_get :: "(string \<rightharpoonup> pyval) \<Rightarrow> string \<Rightarrow> pyval \<Rightarrow> pyval" where
  "usage_get usage k dflt = (case usage k of Some v \<Rightarrow> v | None \<Rightarrow> dflt)"

text \<open>
  \<open>extract_cache_creation_tokens\<close>. The two new-format fields are converted left to
  right; the old-format field is read and converted only when the total is not
  positive. An exception of \<open>int\<close> leaves the function as it is.
\<close>

definition extract_cache_creation_tokens ::
  "(string \<Rightarrow> int option) \<Rightarrow> (string \<rightharpoonup> pyval) \<Rightarrow> py_error + int" where
  "extract_cache_creation_tokens int_of_str usage =
     (let cache_5m = usage_get usage ''claude_cache_creation_5_m_tokens'' (PyInt 0);
          cache_1h = usage_get usage ''claude_cache_creation_1_h_tokens'' (PyInt 0)
      in case py_int int_of_str cache_5m of
           Inl err \<Rightarrow> Inl err
         | Inr n_5m \<Rightarrow>
             (case py_int int_of_str cache_1h of
                Inl err \<Rightarrow> Inl err
              | Inr n_1h \<Rightarrow>
                  (let total = n_5m + n_1h
                   in if 0 < total then Inr total
                      else py_int int_of_str
                             (usage_get usage ''cache_creation_input_tokens'' (PyInt 0)))))"

text \<open>
  One reading of strings to run the function with: a plain decimal literal, an optional
  sign followed by digits.
\<close>

fun read_digits :: "nat \<Rightarrow> string \<Rightarrow> nat option" where
  "read_digits acc [] = Some acc"
| "read_digits acc (c # cs) =
     (let d = (of_char c :: nat)
      in if 48 \<le> d \<and> d \<le> 57 then read_digits (10 * acc + (d - 48)) cs else None)"

definition plain_decimal :: "string \<Rightarrow> int option" where
  "plain_decimal s =
     (case s of
        [] \<Rightarrow> None
      | c # cs \<Rightarrow>
          if c = CHR ''-'' then (if cs = [] then None
                                else map_option (\<lambda>n. - int n) (read_digits 0 cs))
          else if c = CHR ''+'' then (if cs = [] then None
                                     else map_option int (read_digits 0 cs))
          else map_option int (read_digits 0 s))"

text \<open>
  A field that is absent or holds an integer, and the token count such a field stands
  for.
\<close>

definition int_or_absent :: "(string \<rightharpoonup> pyval) \<Rightarrow> string \<Rightarrow> bool" where
  "int_or_absent usage k =
     (case usage k of None \<Rightarrow> True | Some (PyInt i) \<Rightarrow> True | Some _ \<Rightarrow> False)"

definition token_count :: "(string \<rightharpoonup> pyval) \<Rightarrow> string \<Rightarrow> int" where
  "token_count usage k = (case usage k of Some (PyInt i) \<Rightarrow> i | _ \<Rightarrow> 0)"

text \<open>
  Two usage blocks: one with a float, a string and a null, one in the old format.
\<close>

definition mixed_usage :: "string \<rightharpoonup> pyval" where
  "mixed_usage =
     [''claude_cache_creation_5_m_tokens'' \<mapsto> PyFloat (Finite 3 (- 1)),
      ''claude_cache_creation_1_h_tokens'' \<mapsto> PyStr ''12'',
      ''cache_creation_input_tokens'' \<mapsto> PyNone]"

definition old_format_usage :: "string \<rightharpoonup> pyval" where
  "old_format_usage =
     [''claude_cache_creation_1_h_tokens'' \<mapsto> PyInt 0,
      ''cache_creation_input_tokens'' \<mapsto> PyInt 11]"

section \<open>Concurrency admission controller\<close>

text \<open>
  The admin routes of \<open>src/api/admin/endpoints/concurrency.py\<close> call
  \<open>get_current_concurrency\<close> and \<open>reset_concurrency\<close> of the concurrency manager; the
  manager itself (\<open>src/services/rate_limit/concurrency_manager.py\<close>) is not among the
  source files. Its state is one counter per endpoint id and one per key id; an id
  never seen counts zero. Counters are integers, so that the floor is a property of the
  operations and not of the type.
\<close>

record counters =
  endpoint_count :: "string \<Rightarrow> int"
  key_count :: "string \<Rightarrow> int"

record ceilings =
  endpoint_max_concurrent :: "string \<Rightarrow> int option"
  key_max_concurrent :: "string \<Rightarrow> int option"

datatype admission = Admitted | EndpointSaturated | KeySaturated

definition no_traffic :: counters where
  "no_traffic = \<lparr> endpoint_count = (\<lambda>_. 0), key_count = (\<lambda>_. 0) \<rparr>"

text \<open>
  Modelled from the spec: the ceiling test of \<open>acquire\<close>, which is missing from the
  sources. Section 3 of the specification: \<open>max_concurrent\<close> is a positive ceiling, and
  0 or absent means unlimited.
\<close>

definition has_room :: "int option \<Rightarrow> int \<Rightarrow> bool" where
  "has_room ceiling current =
     (case ceiling of None \<Rightarrow> True | Some m \<Rightarrow> if m \<le> 0 then True else current < m)"

text \<open>
  Modelled from the spec: \<open>acquire(endpoint_id?, key_id?)\<close> of the concurrency manager,
  missing from the sources. Section 4.1: both ceilings are checked first; when both
  pass, both counters are incremented; otherwise the saturated entity is reported and
  no counter changes.
\<close>

definition acquire ::
  "ceilings \<Rightarrow> counters \<Rightarrow> string option \<Rightarrow> string option \<Rightarrow> admission \<times> counters" where
  "acquire cfg s eid kid =
     (let endpoint_ok = (case eid of None \<Rightarrow> True
                         | Some e \<Rightarrow> has_room (endpoint_max_concurrent cfg e) (endpoint_count s e));
          key_ok = (case kid of None \<Rightarrow> True
                    | Some k \<Rightarrow> has_room (key_max_concurrent cfg k) (key_count s k))
      in if \<not> endpoint_ok then (EndpointSaturated, s)
         else if \<not> key_ok then (KeySaturated, s)
         else (Admitted,
               s\<lparr> endpoint_count :=
                     (case eid of None \<Rightarrow> endpoint_count s
                      | Some e \<Rightarrow> (endpoint_count s)(e := endpoint_count s e + 1)),
                   key_count :=
                     (case kid of None \<Rightarrow> key_count s
                      | Some k \<Rightarrow> (key_count s)(k := key_count s k + 1)) \<rparr>))"

text \<open>
  Modelled from the spec: \<open>release(endpoint_id?, key_id?)\<close> of the concurrency manager,
  missing from the sources. Section 4.1: the named counters are decremented, never
  below zero (defensive floor).
\<close>

definition release :: "counters \<Rightarrow> string option \<Rightarrow> string option \<Rightarrow> counters" where
  "release s eid kid =
     s\<lparr> endpoint_count :=
           (case eid of None \<Rightarrow> endpoint_count s
            | Some e \<Rightarrow> (endpoint_count s)(e := max 0 (endpoint_count s e - 1))),
         key_count :=
           (case kid of None \<Rightarrow> key_count s
            | Some k \<Rightarrow> (key_count s)(k := max 0 (key_count s k - 1))) \<rparr>"

text \<open>
  Modelled from the spec: \<open>reset(endpoint_id?, key_id?)\<close>, the manager's
  \<open>reset_concurrency\<close> that \<open>AdminResetConcurrencyAdapter\<close> calls, missing from the
  sources. Section 4.1: the named counters are set to zero.
\<close>

definition reset_concurrency :: "counters \<Rightarrow> string option \<Rightarrow> string option \<Rightarrow> counters" where
  "reset_concurrency s eid kid =
     s\<lparr> endpoint_count :=
           (case eid of None \<Rightarrow> endpoint_count s | Some e \<Rightarrow> (endpoint_count s)(e := 0)),
         key_count :=
           (case kid of None \<Rightarrow> key_count s | Some k \<Rightarrow> (key_count s)(k := 0)) \<rparr>"

text \<open>
  Modelled from the spec: \<open>current(endpoint_id?, key_id?)\<close>, the manager's
  \<open>get_current_concurrency\<close> that the two status adapters call, missing from the
  sources: a read of the two named counters.
\<close>

definition get_current_concurrency ::
  "counters \<Rightarrow> string option \<Rightarrow> string option \<Rightarrow> int \<times> int" where
  "get_current_concurrency s eid kid =
     ((case eid of None \<Rightarrow> 0 | Some e \<Rightarrow> endpoint_count s e),
      (case kid of None \<Rightarrow> 0 | Some k \<Rightarrow> key_count s k))"

text \<open>A caller's history: any interleaving of the three mutating operations.\<close>

datatype slot_op =
    Acquire "string option" "string option"
  | Release "string option" "string option"
  | Reset "string option" "string option"

fun apply_slot_op :: "ceilings \<Rightarrow> counters \<Rightarrow> slot_op \<Rightarrow> counters" where
  "apply_slot_op cfg s (Acquire eid kid) = snd (acquire cfg s eid kid)"
| "apply_slot_op cfg s (Release eid kid) = release s eid kid"
| "apply_slot_op cfg s (Reset eid kid) = reset_concurrency s eid kid"

fun run_slot_ops :: "ceilings \<Rightarrow> counters \<Rightarrow> slot_op list \<Rightarrow> counters" where
  "run_slot_ops cfg s [] = s"
| "run_slot_ops cfg s (x # xs) = run_slot_ops cfg (apply_slot_op cfg s x) xs"

definition counters_nonneg :: "counters \<Rightarrow> bool" where
  "counters_nonneg s \<longleftrightarrow> (\<forall>e. 0 \<le> endpoint_count s e) \<and> (\<forall>k. 0 \<le> key_count s k)"

section \<open>Text\<close>

text \<open>
  Strings are byte lists, so the Chinese literals of the source appear as their UTF-8
  bytes. \<open>py_str\<close> is Python's \<open>str\<close> on an integer, which is what an f-string
  applies to \<open>{n}\<close>: decimal digits, with a minus sign for a negative number.
\<close>

definition digit_char :: "nat \<Rightarrow> char" where
  "digit_char d = char_of (48 + d)"

fun show_nat :: "nat \<Rightarrow> string" where
  "show_nat n = (if n < 10 then [digit_char n] else show_nat (n div 10) @ [digit_char (n mod 10)])"

declare show_nat.simps [simp del]

definition py_str :: "int \<Rightarrow> string" where
  "py_str i = (if i < 0 then CHR ''-'' # show_nat (nat (- i)) else show_nat (nat i))"

text \<open>\<open>str.isascii\<close>: every character is below 128.\<close>

definition is_ascii :: "string \<Rightarrow> bool" where
  "is_ascii s = list_all (\<lambda>ch. (of_char ch :: nat) < 128) s"

section \<open>Email verification codes (\<open>src/services/verification/email_verification.py\<close>)\<close>

text \<open>
  The Redis client is an external collaborator; the service uses four of its commands on
  string keys. An entry holds a value and the remaining time to live that \<open>TTL\<close>
  reports for it (\<open>-1\<close> for a key without expiry); \<open>TTL\<close> of a missing key is \<open>-2\<close>.
  A value is either the text \<open>json.dumps\<close> wrote for a document, read back by
  \<open>json.loads\<close> as that document (\<open>Doc\<close>), or a text that is not a JSON document
  (\<open>Raw\<close>), such as the marker \<open>verified\<close>. Time does not pass inside the model: what
  an entry's \<open>TTL\<close> reports is part of the state a call starts from.
\<close>

datatype redis_val = Doc json | Raw string

record redis_entry =
  re_value :: redis_val
  re_ttl :: int

type_synonym redis = "string \<rightharpoonup> redis_entry"

definition redis_get :: "redis \<Rightarrow> string \<Rightarrow> redis_val option" where
  "redis_get r k = map_option re_value (r k)"

definition redis_ttl :: "redis \<Rightarrow> string \<Rightarrow> int" where
  "redis_ttl r k = (case r k of None \<Rightarrow> - 2 | Some e \<Rightarrow> re_ttl e)"

definition redis_setex :: "redis \<Rightarrow> string \<Rightarrow> int \<Rightarrow> redis_val \<Rightarrow> redis" where
  "redis_setex r k seconds v = r(k \<mapsto> \<lparr> re_value = v, re_ttl = seconds \<rparr>)"

definition redis_delete :: "redis \<Rightarrow> string \<Rightarrow> redis" where
  "redis_delete r k = r(k := None)"

definition VERIFICATION_PREFIX :: string where
  "VERIFICATION_PREFIX = ''email:verification:''"

definition VERIFIED_PREFIX :: string where
  "VERIFIED_PREFIX = ''email:verified:''"

definition DEFAULT_MAX_ATTEMPTS :: int where
  "DEFAULT_MAX_ATTEMPTS = 5"

text \<open>The five messages \<open>verify_code\<close> returns, in the order they appear in the source.\<close>

definition msg_system_error :: string where
  "msg_system_error =
     [CHR 0xE7, CHR 0xB3, CHR 0xBB, CHR 0xE7, CHR 0xBB, CHR 0x9F, CHR 0xE9, CHR 0x94,
      CHR 0x99, CHR 0xE8, CHR 0xAF, CHR 0xAF]"

definition msg_code_missing :: string where
  "msg_code_missing =
     [CHR 0xE9, CHR 0xAA, CHR 0x8C, CHR 0xE8, CHR 0xAF, CHR 0x81, CHR 0xE7, CHR 0xA0,
      CHR 0x81, CHR 0xE4, CHR 0xB8, CHR 0x8D, CHR 0xE5, CHR 0xAD, CHR 0x98, CHR 0xE5,
      CHR 0x9C, CHR 0xA8, CHR 0xE6, CHR 0x88, CHR 0x96, CHR 0xE5, CHR 0xB7, CHR 0xB2,
      CHR 0xE8, CHR 0xBF, CHR 0x87, CHR 0xE6, CHR 0x9C, CHR 0x9F]"

definition msg_too_many_attempts :: string where
  "msg_too_many_attempts =
     [CHR 0xE9, CHR 0xAA, CHR 0x8C, CHR 0xE8, CHR 0xAF, CHR 0x81, CHR 0xE7, CHR 0xA0,
      CHR 0x81, CHR 0xE5, CHR 0xB0, CHR 0x9D, CHR 0xE8, CHR 0xAF, CHR 0x95, CHR 0xE6,
      CHR 0xAC, CHR 0xA1, CHR 0xE6, CHR 0x95, CHR 0xB0, CHR 0xE8, CHR 0xBF, CHR 0x87,
      CHR 0xE5, CHR 0xA4, CHR 0x9A, CHR 0xEF, CHR 0xBC, CHR 0x8C, CHR 0xE8, CHR 0xAF,
      CHR 0xB7, CHR 0xE9, CHR 0x87, CHR 0x8D, CHR 0xE6, CHR 0x96, CHR 0xB0, CHR 0xE5,
      CHR 0x8F, CHR 0x91, CHR 0xE9, CHR 0x80, CHR 0x81]"

definition msg_wrong_code :: "int \<Rightarrow> string" where
  "msg_wrong_code remaining_attempts =
     [CHR 0xE9, CHR 0xAA, CHR 0x8C, CHR 0xE8, CHR 0xAF, CHR 0x81, CHR 0xE7, CHR 0xA0,
      CHR 0x81, CHR 0xE9, CHR 0x94, CHR 0x99, CHR 0xE8, CHR 0xAF, CHR 0xAF, CHR 0xEF,
      CHR 0xBC, CHR 0x8C, CHR 0xE5, CHR 0x89, CHR 0xA9, CHR 0xE4, CHR 0xBD, CHR 0x99,
      CHR 0xE5, CHR 0xB0, CHR 0x9D, CHR 0xE8, CHR 0xAF, CHR 0x95, CHR 0xE6, CHR 0xAC,
      CHR 0xA1, CHR 0xE6, CHR 0x95, CHR 0xB0, CHR 0x3A, CHR 0x20]
     @ py_str remaining_attempts"

definition msg_verified :: string where
  "msg_verified =
     [CHR 0xE9, CHR 0xAA, CHR 0x8C, CHR 0xE8, CHR 0xAF, CHR 0x81, CHR 0xE6, CHR 0x88,
      CHR 0x90, CHR 0xE5, CHR 0x8A, CHR 0x9F]"

text \<open>
  \<open>data[k] = v\<close> on a dictionary: an existing key keeps its place, a new key goes last.
\<close>

fun dict_set :: "string \<Rightarrow> json \<Rightarrow> (string \<times> json) list \<Rightarrow> (string \<times> json) list" where
  "dict_set k v [] = [(k, v)]"
| "dict_set k v ((k', v') # kvs) =
     (if k' = k then (k, v) # kvs else (k', v') # dict_set k v kvs)"

text \<open>
  The values on which \<open>x >= 5\<close> and \<open>x += 1\<close> are defined: integers, and booleans as
  the integers 0 and 1. On anything else Python raises \<open>TypeError\<close>.
\<close>

fun as_int :: "json \<Rightarrow> int option" where
  "as_int (JInt i) = Some i"
| "as_int (JBool b) = Some (if b then 1 else 0)"
| "as_int _ = None"

text \<open>
  \<open>secrets.compare_digest(a, b)\<close> on strings: equality, defined on ASCII strings only;
  \<open>None\<close> is the \<open>TypeError\<close> it raises otherwise.
\<close>

definition compare_digest :: "string \<Rightarrow> json \<Rightarrow> bool option" where
  "compare_digest a b =
     (case b of
        JStr s \<Rightarrow> if is_ascii a \<and> is_ascii s then Some (a = s) else None
      | _ \<Rightarrow> None)"

text \<open>
  \<open>verify_code\<close>. The client is \<open>None\<close> when Redis is unavailable. Every exception
  raised inside the \<open>try\<close> block (a value that is not a document, a missing field, a
  \<open>TypeError\<close>) ends in the handler that returns the system-error message; none of
  them is raised after a write, so the store is then the one the call started from.
\<close>

definition verify_code ::
  "redis option \<Rightarrow> string \<Rightarrow> string \<Rightarrow> (bool \<times> string) \<times> redis option" where
  "verify_code client email code =
     (case client of
        None \<Rightarrow> ((False, msg_system_error), None)
      | Some r \<Rightarrow>
          (let verification_key = VERIFICATION_PREFIX @ email in
           case redis_get r verification_key of
             None \<Rightarrow> ((False, msg_code_missing), Some r)
           | Some (Raw s) \<Rightarrow>
               if s = [] then ((False, msg_code_missing), Some r)
               else ((False, msg_system_error), Some r)
           | Some (Doc (JObj data)) \<Rightarrow>
               (case map_option as_int (map_of data ''attempts'') of
                  Some (Some attempts) \<Rightarrow>
                    if DEFAULT_MAX_ATTEMPTS \<le> attempts
                    then ((False, msg_too_many_attempts), Some (redis_delete r verification_key))
                    else
                      (let data' = dict_set ''attempts'' (JInt (attempts + 1)) data in
                       case map_option (compare_digest code) (map_of data' ''code'') of
                         Some (Some matches) \<Rightarrow>
                           if \<not> matches then
                             (let ttl = redis_ttl r verification_key;
                                  r' = (if 0 < ttl
                                        then redis_setex r verification_key ttl (Doc (JObj data'))
                                        else r);
                                  remaining_attempts = DEFAULT_MAX_ATTEMPTS - (attempts + 1)
                              in ((False, msg_wrong_code remaining_attempts), Some r'))
                           else
                             (let r1 = redis_delete r verification_key;
                                  verified_key = VERIFIED_PREFIX @ email;
                                  r2 = redis_setex r1 verified_key 3600 (Raw ''verified'')
                              in ((True, msg_verified), Some r2))
                       | _ \<Rightarrow> ((False, msg_system_error), Some r))
                | _ \<Rightarrow> ((False, msg_system_error), Some r))
           | Some (Doc _) \<Rightarrow> ((False, msg_system_error), Some r)))"

text \<open>A client calling \<open>verify_code\<close> for one address with one code after the other.\<close>

fun verify_codes ::
  "redis option \<Rightarrow> string \<Rightarrow> string list \<Rightarrow> (bool \<times> string) list \<times> redis option" where
  "verify_codes client email [] = ([], client)"
| "verify_codes client email (code # codes) =
     (let (res, client') = verify_code client email code;
          (rest, client'') = verify_codes client' email codes
      in (res # rest, client''))"

text \<open>
  The document \<open>send_verification_code\<close> stores for a new code, and what it becomes
  after \<open>attempts\<close> comparisons: the code, the attempt count and the creation time.
\<close>

definition verification_data :: "string \<Rightarrow> int \<Rightarrow> string \<Rightarrow> json" where
  "verification_data code attempts created_at =
     JObj [(''code'', JStr code), (''attempts'', JInt attempts), (''created_at'', JStr created_at)]"

definition pending_code :: "string \<Rightarrow> int \<Rightarrow> string \<Rightarrow> int \<Rightarrow> redis_entry" where
  "pending_code code attempts created_at ttl =
     \<lparr> re_value = Doc (verification_data code attempts created_at), re_ttl = ttl \<rparr>"

text \<open>
  A store holding one pending code for \<open>a@b.c\<close>, and five wrong guesses at it.
\<close>

definition demo_store :: "int \<Rightarrow> int \<Rightarrow> redis" where
  "demo_store attempts ttl =
     [VERIFICATION_PREFIX @ ''a@b.c'' \<mapsto> pending_code ''123456'' attempts ''2026-01-01T00:00:00+00:00'' ttl]"

definition five_wrong :: "string list" where
  "five_wrong = [''000000'', ''111111'', ''222222'', ''333333'', ''444444'']"

text \<open>A configuration with one slot per endpoint and no ceiling on keys.\<close>

definition one_slot :: ceilings where
  "one_slot = \<lparr> endpoint_max_concurrent = (\<lambda>_. Some 1), key_max_concurrent = (\<lambda>_. None) \<rparr>"

section \<open>Authentication routes (\<open>src/api/auth/routes.py\<close>)\<close>

text \<open>
  The four public adapters that consult the IP rate limiter. An adapter's \<open>handle\<close> is
  sequential code over collaborators that are not among the sources (the request
  context, the pydantic models, \<open>IPRateLimiter\<close>, \<open>AuthService\<close>, \<open>UserService\<close>,
  \<open>AuditService\<close>, \<open>ConfigService\<close>, the database session, the mail sender). Each
  collaborator is a field of the environment: what it answers when called. A handler
  returns the calls it made, in order, and either the exception it raised or the
  dictionary it returned.
\<close>

datatype exn =
    HTTPException int string
  | InvalidRequestException string
  | ValidationError "(string list \<times> string) list"
  | RequestBodyError string

record LoginRequest =
  lr_email :: string
  lr_password :: string

record RegisterRequest =
  rr_email :: string
  rr_username :: string
  rr_password :: string

record SendVerificationCodeRequest =
  sr_email :: string

record VerifyEmailRequest =
  vr_email :: string
  vr_code :: string

record User =
  u_id :: string
  u_email :: string
  u_username :: string
  u_role :: string
  u_created_at :: "string option"

datatype event =
    CheckLimit string string
  | LoggerWarning
  | LoggerError
  | LoggerInfo
  | AuthenticateUser string string
  | LogLoginAttempt string bool
  | LogEvent string
  | DbCommit
  | CreateAccessToken
  | CreateRefreshToken
  | QueryEnableRegistration
  | GetConfig string
  | IsEmailVerified string
  | CreateUser string string
  | ClearVerification string
  | QueryUserByEmail string
  | SendVerificationCode string
  | SendEmail string
  | VerifyCode string string

record auth_env =
  ensure_json_body :: "exn + json"
  validate_login :: "json \<Rightarrow> (string list \<times> string) list + LoginRequest"
  validate_register :: "json \<Rightarrow> (string list \<times> string) list + RegisterRequest"
  validate_send :: "json \<Rightarrow> (string list \<times> string) list + SendVerificationCodeRequest"
  validate_verify :: "json \<Rightarrow> (string list \<times> string) list + VerifyEmailRequest"
  get_client_ip :: string
  get_user_agent :: string
  check_limit :: "string \<Rightarrow> string \<Rightarrow> bool \<times> int \<times> int"
  authenticate_user :: "string \<Rightarrow> string \<Rightarrow> User option"
  create_access_token :: "json \<Rightarrow> string"
  create_refresh_token :: "json \<Rightarrow> string"
  enable_registration_row :: "json option"
  get_config :: "string \<Rightarrow> json \<Rightarrow> json"
  is_email_verified :: "string \<Rightarrow> bool"
  create_user :: "string \<Rightarrow> string \<Rightarrow> string \<Rightarrow> string + User"
  query_user_by_email :: "string \<Rightarrow> User option"
  send_verification_code :: "string \<Rightarrow> json \<Rightarrow> bool \<times> string \<times> string option"
  send_email :: "string \<Rightarrow> string \<Rightarrow> json \<Rightarrow> bool \<times> string option"

text \<open>Python's truth value of a JSON value, and \<open>sep.join(xs)\<close>.\<close>

fun truthy :: "json \<Rightarrow> bool" where
  "truthy JNull = False"
| "truthy (JBool b) = b"
| "truthy (JInt i) = (i \<noteq> 0)"
| "truthy (JStr s) = (s \<noteq> [])"
| "truthy (JList xs) = (xs \<noteq> [])"
| "truthy (JObj kvs) = (kvs \<noteq> [])"

fun py_join :: "string \<Rightarrow> string list \<Rightarrow> string" where
  "py_join sep [] = []"
| "py_join sep [x] = x"
| "py_join sep (x # y # ys) = x @ sep @ py_join sep (y # ys)"

text \<open>
  The message built from a pydantic \<open>ValidationError\<close>: each error is its location
  joined by \<open>->\<close>, a colon and its message; the errors are joined by semicolons.
\<close>

definition msg_validation_failed :: "(string list \<times> string) list \<Rightarrow> string" where
  "msg_validation_failed errors =
     [CHR 0xE8, CHR 0xBE, CHR 0x93, CHR 0xE5, CHR 0x85, CHR 0xA5, CHR 0xE9, CHR 0xAA,
      CHR 0x8C, CHR 0xE8, CHR 0xAF, CHR 0x81, CHR 0xE5, CHR 0xA4, CHR 0xB1, CHR 0xE8,
      CHR 0xB4, CHR 0xA5, CHR 0x3A, CHR 0x20]
     @ py_join ''; '' (map (\<lambda>(loc, msg). py_join '' -> '' loc @ '': '' @ msg) errors)"

text \<open>The three rate-limit details; all end with the same words after the seconds.\<close>

definition retry_suffix :: string where
  "retry_suffix =
     [CHR 0x20, CHR 0xE7, CHR 0xA7, CHR 0x92, CHR 0xE5, CHR 0x90, CHR 0x8E, CHR 0xE9,
      CHR 0x87, CHR 0x8D, CHR 0xE8, CHR 0xAF, CHR 0x95]"

definition login_limit_prefix :: string where
  "login_limit_prefix =
     [CHR 0xE7, CHR 0x99, CHR 0xBB, CHR 0xE5, CHR 0xBD, CHR 0x95, CHR 0xE8, CHR 0xAF,
      CHR 0xB7, CHR 0xE6, CHR 0xB1, CHR 0x82, CHR 0xE8, CHR 0xBF, CHR 0x87, CHR 0xE4,
      CHR 0xBA, CHR 0x8E, CHR 0xE9, CHR 0xA2, CHR 0x91, CHR 0xE7, CHR 0xB9, CHR 0x81,
      CHR 0xEF, CHR 0xBC, CHR 0x8C, CHR 0xE8, CHR 0xAF, CHR 0xB7, CHR 0xE5, CHR 0x9C,
      CHR 0xA8, CHR 0x20]"

definition register_limit_prefix :: string where
  "register_limit_prefix =
     [CHR 0xE6, CHR 0xB3, CHR 0xA8, CHR 0xE5, CHR 0x86, CHR 0x8C, CHR 0xE8, CHR 0xAF,
      CHR 0xB7, CHR 0xE6, CHR 0xB1, CHR 0x82, CHR 0xE8, CHR 0xBF, CHR 0x87, CHR 0xE4,
      CHR 0xBA, CHR 0x8E, CHR 0xE9, CHR 0xA2, CHR 0x91, CHR 0xE7, CHR 0xB9, CHR 0x81,
      CHR 0xEF, CHR 0xBC, CHR 0x8C, CHR 0xE8, CHR 0xAF, CHR 0xB7, CHR 0xE5, CHR 0x9C,
      CHR 0xA8, CHR 0x20]"

definition request_limit_prefix :: string where
  "request_limit_prefix =
     [CHR 0xE8, CHR 0xAF, CHR 0xB7, CHR 0xE6, CHR 0xB1, CHR 0x82, CHR 0xE8, CHR 0xBF,
      CHR 0x87, CHR 0xE4, CHR 0xBA, CHR 0x8E, CHR 0xE9, CHR 0xA2, CHR 0x91, CHR 0xE7,
      CHR 0xB9, CHR 0x81, CHR 0xEF, CHR 0xBC, CHR 0x8C, CHR 0xE8, CHR 0xAF, CHR 0xB7,
      CHR 0xE5, CHR 0x9C, CHR 0xA8, CHR 0x20]"

definition msg_bad_credentials :: string where
  "msg_bad_credentials =
     [CHR 0xE9, CHR 0x82, CHR 0xAE, CHR 0xE7, CHR 0xAE, CHR 0xB1, CHR 0xE6, CHR 0x88,
      CHR 0x96, CHR 0xE5, CHR 0xAF, CHR 0x86, CHR 0xE7, CHR 0xA0, CHR 0x81, CHR 0xE9,
      CHR 0x94, CHR 0x99, CHR 0xE8, CHR 0xAF, CHR 0xAF]"

definition msg_registration_closed :: string where
  "msg_registration_closed =
     [CHR 0xE7, CHR 0xB3, CHR 0xBB, CHR 0xE7, CHR 0xBB, CHR 0x9F, CHR 0xE6, CHR 0x9A,
      CHR 0x82, CHR 0xE4, CHR 0xB8, CHR 0x8D, CHR 0xE5, CHR 0xBC, CHR 0x80, CHR 0xE6,
      CHR 0x94, CHR 0xBE, CHR 0xE6, CHR 0xB3, CHR 0xA8, CHR 0xE5, CHR 0x86, CHR 0x8C]"

definition msg_verify_email_first :: string where
  "msg_verify_email_first =
     [CHR 0xE8, CHR 0xAF, CHR 0xB7, CHR 0xE5, CHR 0x85, CHR 0x88, CHR 0xE5, CHR 0xAE,
      CHR 0x8C, CHR 0xE6, CHR 0x88, CHR 0x90, CHR 0xE9, CHR 0x82, CHR 0xAE, CHR 0xE7,
      CHR 0xAE, CHR 0xB1, CHR 0xE9, CHR 0xAA, CHR 0x8C, CHR 0xE8, CHR 0xAF, CHR 0x81,
      CHR 0xE3, CHR 0x80, CHR 0x82, CHR 0xE8, CHR 0xAF, CHR 0xB7, CHR 0xE5, CHR 0x8F,
      CHR 0x91, CHR 0xE9, CHR 0x80, CHR 0x81, CHR 0xE9, CHR 0xAA, CHR 0x8C, CHR 0xE8,
      CHR 0xAF, CHR 0x81, CHR 0xE7, CHR 0xA0, CHR 0x81, CHR 0xE5, CHR 0xB9, CHR 0xB6,
      CHR 0xE9, CHR 0xAA, CHR 0x8C, CHR 0xE8, CHR 0xAF, CHR 0x81, CHR 0xE5, CHR 0x90,
      CHR 0x8E, CHR 0xE5, CHR 0x86, CHR 0x8D, CHR 0xE6, CHR 0xB3, CHR 0xA8, CHR 0xE5,
      CHR 0x86, CHR 0x8C, CHR 0xE3, CHR 0x80, CHR 0x82]"

definition msg_registered :: string where
  "msg_registered =
     [CHR 0xE6, CHR 0xB3, CHR 0xA8, CHR 0xE5, CHR 0x86, CHR 0x8C, CHR 0xE6, CHR 0x88,
      CHR 0x90, CHR 0xE5, CHR 0x8A, CHR 0x9F]"

definition msg_code_sent :: string where
  "msg_code_sent =
     [CHR 0xE9, CHR 0xAA, CHR 0x8C, CHR 0xE8, CHR 0xAF, CHR 0x81, CHR 0xE7, CHR 0xA0,
      CHR 0x81, CHR 0xE5, CHR 0xB7, CHR 0xB2, CHR 0xE5, CHR 0x8F, CHR 0x91, CHR 0xE9,
      CHR 0x80, CHR 0x81]"

definition msg_code_sent_by_mail :: string where
  "msg_code_sent_by_mail =
     [CHR 0xE9, CHR 0xAA, CHR 0x8C, CHR 0xE8, CHR 0xAF, CHR 0x81, CHR 0xE7, CHR 0xA0,
      CHR 0x81, CHR 0xE5, CHR 0xB7, CHR 0xB2, CHR 0xE5, CHR 0x8F, CHR 0x91, CHR 0xE9,
      CHR 0x80, CHR 0x81, CHR 0xEF, CHR 0xBC, CHR 0x8C, CHR 0xE8, CHR 0xAF, CHR 0xB7,
      CHR 0xE6, CHR 0x9F, CHR 0xA5, CHR 0xE6, CHR 0x94, CHR 0xB6, CHR 0xE9, CHR 0x82,
      CHR 0xAE, CHR 0xE4, CHR 0xBB, CHR 0xB6]"

definition msg_send_failed :: string where
  "msg_send_failed =
     [CHR 0xE5, CHR 0x8F, CHR 0x91, CHR 0xE9, CHR 0x80, CHR 0x81, CHR 0xE9, CHR 0xAA,
      CHR 0x8C, CHR 0xE8, CHR 0xAF, CHR 0x81, CHR 0xE7, CHR 0xA0, CHR 0x81, CHR 0xE5,
      CHR 0xA4, CHR 0xB1, CHR 0xE8, CHR 0xB4, CHR 0xA5, CHR 0xEF, CHR 0xBC, CHR 0x8C,
      CHR 0xE8, CHR 0xAF, CHR 0xB7, CHR 0xE7, CHR 0xA8, CHR 0x8D, CHR 0xE5, CHR 0x90,
      CHR 0x8E, CHR 0xE9, CHR 0x87, CHR 0x8D, CHR 0xE8, CHR 0xAF, CHR 0x95]"

definition msg_email_verified :: string where
  "msg_email_verified =
     [CHR 0xE9, CHR 0x82, CHR 0xAE, CHR 0xE7, CHR 0xAE, CHR 0xB1, CHR 0xE9, CHR 0xAA,
      CHR 0x8C, CHR 0xE8, CHR 0xAF, CHR 0x81, CHR 0xE6, CHR 0x88, CHR 0x90, CHR 0xE5,
      CHR 0x8A, CHR 0x9F]"

definition opt_json :: "string option \<Rightarrow> json" where
  "opt_json x = (case x of None \<Rightarrow> JNull | Some s \<Rightarrow> JStr s)"

text \<open>\<open>AuthLoginAdapter.handle\<close>.\<close>

definition AuthLoginAdapter_handle :: "auth_env \<Rightarrow> event list \<times> (exn + json)" where
  "AuthLoginAdapter_handle env =
     (case ensure_json_body env of
        Inl e \<Rightarrow> ([], Inl e)
      | Inr payload \<Rightarrow>
          (case validate_login env payload of
             Inl errors \<Rightarrow> ([], Inl (InvalidRequestException (msg_validation_failed errors)))
           | Inr login_request \<Rightarrow>
               (let client_ip = get_client_ip env;
                    (allowed, remaining, reset_after) = check_limit env client_ip ''login'';
                    t1 = [CheckLimit client_ip ''login'']
                in if \<not> allowed then
                     (t1 @ [LoggerWarning],
                      Inl (HTTPException 429
                             (login_limit_prefix @ py_str reset_after @ retry_suffix)))
                   else
                     (let t2 = t1 @ [AuthenticateUser (lr_email login_request)
                                       (lr_password login_request)]
                      in case authenticate_user env (lr_email login_request)
                                (lr_password login_request) of
                           None \<Rightarrow>
                             (t2 @ [LogLoginAttempt (lr_email login_request) False, DbCommit],
                              Inl (HTTPException 401 msg_bad_credentials))
                         | Some user \<Rightarrow>
                             (let access_token = create_access_token env
                                    (JObj [(''user_id'', JStr (u_id user)),
                                           (''email'', JStr (u_email user)),
                                           (''role'', JStr (u_role user)),
                                           (''created_at'', opt_json (u_created_at user))]);
                                  refresh_token = create_refresh_token env
                                    (JObj [(''user_id'', JStr (u_id user)),
                                           (''email'', JStr (u_email user))])
                              in (t2 @ [LogLoginAttempt (lr_email login_request) True, DbCommit,
                                        CreateAccessToken, CreateRefreshToken],
                                  Inr (JObj [(''access_token'', JStr access_token),
                                             (''refresh_token'', JStr refresh_token),
                                             (''token_type'', JStr ''bearer''),
                                             (''expires_in'', JInt 86400),
                                             (''user_id'', JStr (u_id user)),
                                             (''email'', JStr (u_email user)),
                                             (''username'', JStr (u_username user)),
                                             (''role'', JStr (u_role user))])))))))"

text \<open>
  \<open>AuthRegisterAdapter.handle\<close>. The request is validated outside any \<open>try\<close>, so a
  \<open>ValidationError\<close> leaves the handler as it is; \<open>create_user\<close> answers with the
  message of the \<open>ValueError\<close> it raises, or with the new user.
\<close>

definition AuthRegisterAdapter_handle :: "auth_env \<Rightarrow> event list \<times> (exn + json)" where
  "AuthRegisterAdapter_handle env =
     (case ensure_json_body env of
        Inl e \<Rightarrow> ([], Inl e)
      | Inr payload \<Rightarrow>
          (case validate_register env payload of
             Inl errors \<Rightarrow> ([], Inl (ValidationError errors))
           | Inr register_request \<Rightarrow>
               (let client_ip = get_client_ip env;
                    (allowed, remaining, reset_after) = check_limit env client_ip ''register'';
                    t1 = [CheckLimit client_ip ''register'']
                in if \<not> allowed then
                     (t1 @ [LoggerWarning],
                      Inl (HTTPException 429
                             (register_limit_prefix @ py_str reset_after @ retry_suffix)))
                   else
                     (let t2 = t1 @ [QueryEnableRegistration] in
                      if (case enable_registration_row env of
                            None \<Rightarrow> False | Some v \<Rightarrow> \<not> truthy v)
                      then (t2 @ [LogEvent ''UNAUTHORIZED_ACCESS'', DbCommit],
                            Inl (HTTPException 403 msg_registration_closed))
                      else
                        (let require_verification =
                               truthy (get_config env ''require_email_verification'' (JBool False));
                             t3 = t2 @ [GetConfig ''require_email_verification'']
                                   @ (if require_verification
                                      then [IsEmailVerified (rr_email register_request)] else [])
                         in if require_verification
                               \<and> \<not> is_email_verified env (rr_email register_request)
                            then (t3 @ [LoggerWarning],
                                  Inl (HTTPException 400 msg_verify_email_first))
                            else
                              (let t4 = t3 @ [CreateUser (rr_email register_request)
                                                (rr_username register_request)]
                               in case create_user env (rr_email register_request)
                                         (rr_username register_request)
                                         (rr_password register_request) of
                                    Inl exc \<Rightarrow>
                                      (t4 @ [LogEvent ''UNAUTHORIZED_ACCESS'', DbCommit],
                                       Inl (HTTPException 400 exc))
                                  | Inr user \<Rightarrow>
                                      (t4 @ [LogEvent ''USER_CREATED'']
                                          @ (if require_verification
                                             then [ClearVerification (rr_email register_request)]
                                             else [])
                                          @ [DbCommit],
                                       Inr (JObj [(''user_id'', JStr (u_id user)),
                                                  (''email'', JStr (u_email user)),
                                                  (''username'', JStr (u_username user)),
                                                  (''message'', JStr msg_registered)]))))))))"

text \<open>
  \<open>AuthSendVerificationCodeAdapter.handle\<close>. \<open>error_detail or code_or_error\<close> takes the
  detail unless it is \<open>None\<close> or empty.
\<close>

definition AuthSendVerificationCodeAdapter_handle ::
  "auth_env \<Rightarrow> event list \<times> (exn + json)" where
  "AuthSendVerificationCodeAdapter_handle env =
     (case ensure_json_body env of
        Inl e \<Rightarrow> ([], Inl e)
      | Inr payload \<Rightarrow>
          (case validate_send env payload of
             Inl errors \<Rightarrow> ([], Inl (InvalidRequestException (msg_validation_failed errors)))
           | Inr send_request \<Rightarrow>
               (let client_ip = get_client_ip env;
                    email = sr_email send_request;
                    (allowed, remaining, reset_after) =
                       check_limit env client_ip ''verification_send'';
                    t1 = [CheckLimit client_ip ''verification_send'']
                in if \<not> allowed then
                     (t1 @ [LoggerWarning],
                      Inl (HTTPException 429
                             (request_limit_prefix @ py_str reset_after @ retry_suffix)))
                   else
                     (let expire_minutes =
                            get_config env ''verification_code_expire_minutes'' (JInt 30);
                          t2 = t1 @ [GetConfig ''verification_code_expire_minutes'',
                                     QueryUserByEmail email]
                      in case query_user_by_email env email of
                           Some existing_user \<Rightarrow>
                             (t2 @ [LoggerWarning],
                              Inr (JObj [(''success'', JBool True),
                                         (''message'', JStr msg_code_sent),
                                         (''expire_minutes'', expire_minutes)]))
                         | None \<Rightarrow>
                             (let (success, code_or_error, error_detail) =
                                     send_verification_code env email expire_minutes;
                                  t3 = t2 @ [SendVerificationCode email]
                              in if \<not> success then
                                   (t3 @ [LoggerError],
                                    Inl (HTTPException 400
                                           (case error_detail of
                                              None \<Rightarrow> code_or_error
                                            | Some d \<Rightarrow> if d = [] then code_or_error else d)))
                                 else
                                   (let (email_success, email_error) =
                                           send_email env email code_or_error expire_minutes;
                                        t4 = t3 @ [SendEmail email]
                                    in if \<not> email_success then
                                         (t4 @ [LoggerError],
                                          Inl (HTTPException 500 msg_send_failed))
                                       else
                                         (t4 @ [LoggerInfo],
                                          Inr (JObj [(''message'', JStr msg_code_sent_by_mail),
                                                     (''success'', JBool True),
                                                     (''expire_minutes'', expire_minutes)]))))))))"

text \<open>
  \<open>AuthVerifyEmailAdapter.handle\<close>. The code is checked by \<open>verify_code\<close> above, so
  this handler also takes the Redis client and returns it as the call left it.
\<close>

definition AuthVerifyEmailAdapter_handle ::
  "auth_env \<Rightarrow> redis option \<Rightarrow> (event list \<times> (exn + json)) \<times> redis option" where
  "AuthVerifyEmailAdapter_handle env client =
     (case ensure_json_body env of
        Inl e \<Rightarrow> (([], Inl e), client)
      | Inr payload \<Rightarrow>
          (case validate_verify env payload of
             Inl errors \<Rightarrow>
               (([], Inl (InvalidRequestException (msg_validation_failed errors))), client)
           | Inr verify_request \<Rightarrow>
               (let client_ip = get_client_ip env;
                    email = vr_email verify_request;
                    code = vr_code verify_request;
                    (allowed, remaining, reset_after) =
                       check_limit env client_ip ''verification_verify'';
                    t1 = [CheckLimit client_ip ''verification_verify'']
                in if \<not> allowed then
                     ((t1 @ [LoggerWarning],
                       Inl (HTTPException 429
                              (request_limit_prefix @ py_str reset_after @ retry_suffix))),
                      client)
                   else
                     (let ((success, message), client') = verify_code client email code;
                          t2 = t1 @ [VerifyCode email code]
                      in if \<not> success then
                           ((t2 @ [LoggerWarning], Inl (HTTPException 400 message)), client')
                         else
                           ((t2 @ [LoggerInfo],
                             Inr (JObj [(''message'', JStr msg_email_verified),
                                        (''success'', JBool True)])),
                            client')))))"

text \<open>
  The calls the rate limit is there to protect: authentication, user creation, and
  sending or checking a verification code.
\<close>

fun guarded_call :: "event \<Rightarrow> bool" where
  "guarded_call (AuthenticateUser _ _) = True"
| "guarded_call (CreateUser _ _) = True"
| "guarded_call (SendVerificationCode _) = True"
| "guarded_call (SendEmail _) = True"
| "guarded_call (VerifyCode _ _) = True"
| "guarded_call _ = False"

text \<open>
  A request from \<open>10.0.0.1\<close> that the limiter turns away with 42 seconds to wait. Every
  other collaborator would let the request through.
\<close>

definition demo_user :: User where
  "demo_user = \<lparr> u_id = ''u-1'', u_email = ''a@b.c'', u_username = ''alice'',
                  u_role = ''user'', u_created_at = None \<rparr>"

definition limited_env :: auth_env where
  "limited_env =
     \<lparr> ensure_json_body = Inr (JObj [(''email'', JStr ''a@b.c'')]),
       validate_login = (\<lambda>_. Inr \<lparr> lr_email = ''a@b.c'', lr_password = ''secret'' \<rparr>),
       validate_register =
         (\<lambda>_. Inr \<lparr> rr_email = ''a@b.c'', rr_username = ''alice'', rr_password = ''secret'' \<rparr>),
       validate_send = (\<lambda>_. Inr \<lparr> sr_email = ''a@b.c'' \<rparr>),
       validate_verify = (\<lambda>_. Inr \<lparr> vr_email = ''a@b.c'', vr_code = ''123456'' \<rparr>),
       get_client_ip = ''10.0.0.1'',
       get_user_agent = ''curl'',
       check_limit = (\<lambda>ip action. (False, 0, 42)),
       authenticate_user = (\<lambda>_ _. Some demo_user),
       create_access_token = (\<lambda>_. ''access''),
       create_refresh_token = (\<lambda>_. ''refresh''),
       enable_registration_row = Some (JBool True),
       get_config = (\<lambda>key dflt. dflt),
       is_email_verified = (\<lambda>_. True),
       create_user = (\<lambda>_ _ _. Inr demo_user),
       query_user_by_email = (\<lambda>_. None),
       send_verification_code = (\<lambda>_ _. (True, ''123456'', None)),
       send_email = (\<lambda>_ _ _. (True, None)) \<rparr>"

section \<open>Token usage merge\<close>

lemma update_usage_input:
  "input_tokens (update_usage c inp outp cached creation) =
     (case inp of None \<Rightarrow> input_tokens c
      | Some v \<Rightarrow> if 0 < v \<or> input_tokens c = 0 then v else input_tokens c)"
  by (simp add: update_usage_def Let_def split: option.splits)

lemma update_usage_output:
  "output_tokens (update_usage c inp outp cached creation) =
     (case outp of None \<Rightarrow> output_tokens c
      | Some v \<Rightarrow> if 0 < v \<or> output_tokens c = 0 then v else output_tokens c)"
  by (simp add: update_usage_def Let_def split: option.splits)

lemma update_usage_cached:
  "cached_tokens (update_usage c inp outp cached creation) =
     (case cached of None \<Rightarrow> cached_tokens c
      | Some v \<Rightarrow> if 0 < v \<or> cached_tokens c = 0 then v else cached_tokens c)"
  by (simp add: update_usage_def Let_def split: option.splits)

lemma update_usage_creation:
  "cache_creation_tokens (update_usage c inp outp cached creation) =
     (case creation of None \<Rightarrow> cache_creation_tokens c
      | Some v \<Rightarrow> if 0 < v \<or> cache_creation_tokens c = 0 then v else cache_creation_tokens c)"
  by (simp add: update_usage_def Let_def split: option.splits)

text \<open>
  Claim C1. For every context and every call of \<open>update_usage\<close>, each of the four
  counters behaves the same way: an argument that is \<open>None\<close> leaves the stored value as
  it was; an argument \<open>v\<close> becomes the stored value exactly when \<open>v\<close> is strictly
  positive or the stored value is zero, and otherwise the stored value stays.
\<close>

theorem update_usage_overwrite_policy:
  "input_tokens (update_usage c inp outp cached creation) =
     (case inp of None \<Rightarrow> input_tokens c
      | Some v \<Rightarrow> if 0 < v \<or> input_tokens c = 0 then v else input_tokens c)
   \<and> output_tokens (update_usage c inp outp cached creation) =
     (case outp of None \<Rightarrow> output_tokens c
      | Some v \<Rightarrow> if 0 < v \<or> output_tokens c = 0 then v else output_tokens c)
   \<and> cached_tokens (update_usage c inp outp cached creation) =
     (case cached of None \<Rightarrow> cached_tokens c
      | Some v \<Rightarrow> if 0 < v \<or> cached_tokens c = 0 then v else cached_tokens c)
   \<and> cache_creation_tokens (update_usage c inp outp cached creation) =
     (case creation of None \<Rightarrow> cache_creation_tokens c
      | Some v \<Rightarrow> if 0 < v \<or> cache_creation_tokens c = 0 then v else cache_creation_tokens c)"
  using update_usage_input update_usage_output update_usage_cached update_usage_creation
  by blast

theorem update_usage_overwrite_policy_witness:
  "input_tokens (update_usage busy_context (Some 0) (Some 50) None (Some (-1))) = 7
   \<and> output_tokens (update_usage busy_context (Some 0) (Some 50) None (Some (-1))) = 50
   \<and> cached_tokens (update_usage busy_context (Some 0) (Some 50) None (Some (-1))) = 2
   \<and> cache_creation_tokens (update_usage busy_context (Some 0) (Some 50) None (Some (-1))) = 4"
  using update_usage_overwrite_policy [of busy_context "Some 0" "Some 50" None "Some (-1)"]
  by (simp add: busy_context_def update_provider_info_def StreamContext_init_def)

text \<open>
  Claim C4. Starting from a context whose four counters are zero: the updates
  (input 100, output 0) then (input 0, output 50) end with input 100 and output 50; an
  update (input 0) on a zero counter leaves it zero; the updates (input 5) then
  (input 0) end with input 5. In any context, a counter that is not zero is never
  changed by an update that passes zero for it.
\<close>

theorem update_usage_defensive_merge:
  assumes "input_tokens c = 0" and "output_tokens c = 0"
    and "cached_tokens c = 0" and "cache_creation_tokens c = 0"
  shows
    "input_tokens (update_usage (update_usage c (Some 100) (Some 0) None None)
        (Some 0) (Some 50) None None) = 100
     \<and> output_tokens (update_usage (update_usage c (Some 100) (Some 0) None None)
        (Some 0) (Some 50) None None) = 50
     \<and> input_tokens (update_usage c (Some 0) None None None) = 0
     \<and> input_tokens (update_usage (update_usage c (Some 5) None None None)
        (Some 0) None None None) = 5
     \<and> (\<forall>d a b x. input_tokens d \<noteq> 0 \<longrightarrow>
            input_tokens (update_usage d (Some 0) a b x) = input_tokens d)
     \<and> (\<forall>d a b x. output_tokens d \<noteq> 0 \<longrightarrow>
            output_tokens (update_usage d a (Some 0) b x) = output_tokens d)
     \<and> (\<forall>d a b x. cached_tokens d \<noteq> 0 \<longrightarrow>
            cached_tokens (update_usage d a b (Some 0) x) = cached_tokens d)
     \<and> (\<forall>d a b x. cache_creation_tokens d \<noteq> 0 \<longrightarrow>
            cache_creation_tokens (update_usage d a b x (Some 0)) = cache_creation_tokens d)"
  using assms
  by (simp add: update_usage_input update_usage_output update_usage_cached
      update_usage_creation)

theorem update_usage_defensive_merge_witness:
  "input_tokens (update_usage (update_usage (StreamContext_init ''m'' ''CLAUDE'')
       (Some 100) (Some 0) None None) (Some 0) (Some 50) None None) = 100
   \<and> output_tokens (update_usage (update_usage (StreamContext_init ''m'' ''CLAUDE'')
       (Some 100) (Some 0) None None) (Some 0) (Some 50) None None) = 50
   \<and> input_tokens (update_usage (update_usage (StreamContext_init ''m'' ''CLAUDE'')
       (Some 5) None None None) (Some 0) None None None) = 5
   \<and> input_tokens busy_context = 7
   \<and> input_tokens (update_usage busy_context (Some 0) None None None) = 7"
proof -
  let ?c = "StreamContext_init ''m'' ''CLAUDE''"
  have z: "input_tokens ?c = 0" "output_tokens ?c = 0"
    "cached_tokens ?c = 0" "cache_creation_tokens ?c = 0"
    by (simp_all add: StreamContext_init_def)
  have b: "input_tokens busy_context = 7"
    by (simp add: busy_context_def update_provider_info_def StreamContext_init_def)
  from update_usage_defensive_merge [OF z] b show ?thesis
    by simp
qed

section \<open>Reset for retry\<close>

lemma reset_for_retry_frame:
  "provider_name (reset_for_retry c) = provider_name c"
  "provider_id (reset_for_retry c) = provider_id c"
  "endpoint_id (reset_for_retry c) = endpoint_id c"
  "key_id (reset_for_retry c) = key_id c"
  "attempt_id (reset_for_retry c) = attempt_id c"
  "provider_api_format (reset_for_retry c) = provider_api_format c"
  "mapped_model (reset_for_retry c) = mapped_model c"
  by (simp_all add: reset_for_retry_def)

text \<open>
  Claim C2. After \<open>reset_for_retry\<close> the four token counters are zero, the collected
  text is empty, there is no error message, the status code is 200 (the value a new
  context starts with), and \<open>model\<close> and \<open>api_format\<close> are what they were.
\<close>

theorem reset_for_retry_purity:
  "input_tokens (reset_for_retry c) = 0
   \<and> output_tokens (reset_for_retry c) = 0
   \<and> cached_tokens (reset_for_retry c) = 0
   \<and> cache_creation_tokens (reset_for_retry c) = 0
   \<and> collected_text (reset_for_retry c) = []
   \<and> error_message (reset_for_retry c) = None
   \<and> status_code (reset_for_retry c) = 200
   \<and> status_code (reset_for_retry c) = status_code (StreamContext_init m f)
   \<and> model (reset_for_retry c) = model c
   \<and> api_format (reset_for_retry c) = api_format c"
  by (simp add: reset_for_retry_def StreamContext_init_def)

theorem reset_for_retry_purity_witness:
  "input_tokens (reset_for_retry busy_context) = 0
   \<and> collected_text (reset_for_retry busy_context) = []
   \<and> error_message (reset_for_retry busy_context) = None
   \<and> status_code (reset_for_retry busy_context) = 200
   \<and> model (reset_for_retry busy_context) = ''claude-3''
   \<and> api_format (reset_for_retry busy_context) = ''CLAUDE''"
  using reset_for_retry_purity [of busy_context "''m''" "''f''"]
  by (simp add: busy_context_def update_provider_info_def StreamContext_init_def)

text \<open>
  Claim C3 says that \<open>reset_for_retry\<close> returns every field but \<open>model\<close> and
  \<open>api_format\<close> to its default, the provider binding included. The method's docstring
  says the same (keep \<open>model\<close> and \<open>api_format\<close>, reset all other state), but its body
  assigns fourteen fields only. On the context below, bound to provider \<open>acme\<close>, the
  seven binding fields survive the reset, so the result is not a fresh context.
\<close>

theorem reset_for_retry_keeps_provider_binding:
  "provider_name (reset_for_retry busy_context) = Some ''acme''
   \<and> provider_id (reset_for_retry busy_context) = Some ''p-1''
   \<and> endpoint_id (reset_for_retry busy_context) = Some ''e-1''
   \<and> key_id (reset_for_retry busy_context) = Some ''k-1''
   \<and> attempt_id (reset_for_retry busy_context) = Some ''a-1''
   \<and> provider_api_format (reset_for_retry busy_context) = Some ''OPENAI''
   \<and> mapped_model (reset_for_retry busy_context) = Some ''claude-3-mapped''
   \<and> reset_for_retry busy_context
       \<noteq> StreamContext_init (model busy_context) (api_format busy_context)"
proof -
  have m: "mapped_model (reset_for_retry busy_context) = Some ''claude-3-mapped''"
    by (simp add: reset_for_retry_frame busy_context_def)
  have "mapped_model (StreamContext_init (model busy_context) (api_format busy_context)) = None"
    by (simp add: StreamContext_init_def)
  with m have "reset_for_retry busy_context
      \<noteq> StreamContext_init (model busy_context) (api_format busy_context)"
    by auto
  then show ?thesis
    by (simp add: reset_for_retry_frame busy_context_def update_provider_info_def)
qed

section \<open>Outcome of an attempt\<close>

text \<open>
  Claim C6. \<open>is_success\<close> holds exactly when the status code is below 400. After
  \<open>mark_failed c code msg\<close> the status code is \<open>code\<close> and the error message is \<open>msg\<close>,
  and for every \<open>code\<close> of at least 400 the context is not a success.
\<close>

theorem mark_failed_is_success:
  "(is_success c \<longleftrightarrow> status_code c < 400)
   \<and> status_code (mark_failed c code msg) = code
   \<and> error_message (mark_failed c code msg) = Some msg
   \<and> (400 \<le> code \<longrightarrow> \<not> is_success (mark_failed c code msg))"
  by (simp add: is_success_def mark_failed_def)

theorem mark_failed_is_success_witness:
  "is_success (StreamContext_init ''m'' ''CLAUDE'')
   \<and> status_code (mark_failed (StreamContext_init ''m'' ''CLAUDE'') 400 ''bad request'') = 400
   \<and> error_message (mark_failed (StreamContext_init ''m'' ''CLAUDE'') 400 ''bad request'')
       = Some ''bad request''
   \<and> \<not> is_success (mark_failed (StreamContext_init ''m'' ''CLAUDE'') 400 ''bad request'')"
  using mark_failed_is_success [of "StreamContext_init ''m'' ''CLAUDE''" 400 "''bad request''"]
  by (simp add: StreamContext_init_def)

section \<open>The persisted response body\<close>

text \<open>
  Claim C8, as the code has it. The payload of \<open>build_response_body\<close> has the two keys
  \<open>chunks\<close> and \<open>metadata\<close>: \<open>chunks\<close> is the list of parsed events, and \<open>metadata\<close>
  has exactly the keys \<open>stream\<close> (true), \<open>total_chunks\<close> (the length of the parsed
  event list), \<open>data_count\<close>, \<open>has_completion\<close> and \<open>response_time_ms\<close> (the
  argument). Nothing in it comes from the collected text: changing \<open>collected_text\<close>
  does not change the payload.
\<close>

theorem build_response_body_contents:
  "json_keys (build_response_body c t) = [''chunks'', ''metadata'']
   \<and> json_get (build_response_body c t) ''chunks'' = Some (JList (parsed_chunks c))
   \<and> (\<exists>md. json_get (build_response_body c t) ''metadata'' = Some md
        \<and> json_keys md = [''stream'', ''total_chunks'', ''data_count'', ''has_completion'',
                           ''response_time_ms'']
        \<and> json_get md ''stream'' = Some (JBool True)
        \<and> json_get md ''total_chunks'' = Some (JInt (int (length (parsed_chunks c))))
        \<and> json_get md ''data_count'' = Some (JInt (data_count c))
        \<and> json_get md ''has_completion'' = Some (JBool (has_completion c))
        \<and> json_get md ''response_time_ms'' = Some (JInt t))
   \<and> build_response_body (c\<lparr>collected_text := txt\<rparr>) t = build_response_body c t"
  by (simp add: build_response_body_def)

theorem build_response_body_contents_witness:
  "json_keys (build_response_body busy_context 120) = [''chunks'', ''metadata'']
   \<and> json_get (build_response_body busy_context 120) ''chunks''
     = Some (JList [JObj [(''type'', JStr ''message_start'')], JObj []])
   \<and> (\<exists>md. json_get (build_response_body busy_context 120) ''metadata'' = Some md
        \<and> json_get md ''total_chunks'' = Some (JInt 2)
        \<and> json_get md ''data_count'' = Some (JInt 3)
        \<and> json_get md ''has_completion'' = Some (JBool True)
        \<and> json_get md ''response_time_ms'' = Some (JInt 120))
   \<and> build_response_body (busy_context\<lparr>collected_text := ''x''\<rparr>) 120
       = build_response_body busy_context 120"
proof -
  have p: "parsed_chunks busy_context = [JObj [(''type'', JStr ''message_start'')], JObj []]"
    and d: "data_count busy_context = 3" and h: "has_completion busy_context"
    by (simp_all add: busy_context_def)
  from build_response_body_contents [of busy_context 120 "''x''"]
  obtain md where "json_get (build_response_body busy_context 120) ''metadata'' = Some md"
    and "json_get md ''total_chunks'' = Some (JInt (int (length (parsed_chunks busy_context))))"
    and "json_get md ''data_count'' = Some (JInt (data_count busy_context))"
    and "json_get md ''has_completion'' = Some (JBool (has_completion busy_context))"
    and "json_get md ''response_time_ms'' = Some (JInt 120)"
    by blast
  with p d h have "\<exists>md. json_get (build_response_body busy_context 120) ''metadata'' = Some md
        \<and> json_get md ''total_chunks'' = Some (JInt 2)
        \<and> json_get md ''data_count'' = Some (JInt 3)
        \<and> json_get md ''has_completion'' = Some (JBool True)
        \<and> json_get md ''response_time_ms'' = Some (JInt 120)"
    by simp
  with build_response_body_contents [of busy_context 120 "''x''"] p show ?thesis
    by simp
qed

text \<open>
  Claim C8 as stated asks for truncated collected-text metadata in the payload. On the
  context below the collected text is \<open>partial answer\<close>, the payload is the one
  written out, and it is the payload of the same context with the text erased.
\<close>

theorem build_response_body_no_text_counterexample:
  "collected_text busy_context = ''partial answer''
   \<and> build_response_body busy_context 120 =
       JObj [ (''chunks'', JList [JObj [(''type'', JStr ''message_start'')], JObj []]),
              (''metadata'',
                 JObj [ (''stream'', JBool True),
                        (''total_chunks'', JInt 2),
                        (''data_count'', JInt 3),
                        (''has_completion'', JBool True),
                        (''response_time_ms'', JInt 120) ]) ]
   \<and> build_response_body (busy_context\<lparr>collected_text := []\<rparr>) 120
       = build_response_body busy_context 120"
  by (simp add: build_response_body_def busy_context_def)

section \<open>Cache-creation token extraction\<close>

lemma usage_get_absent: "usage k = None \<Longrightarrow> py_int int_of_str (usage_get usage k (PyInt 0)) = Inr 0"
  by (simp add: usage_get_def)

lemma usage_get_int_or_absent:
  "int_or_absent usage k \<Longrightarrow>
   py_int int_of_str (usage_get usage k (PyInt 0)) = Inr (token_count usage k)"
  by (auto simp: int_or_absent_def token_count_def usage_get_def
      split: option.splits pyval.splits)

lemma extract_raises_first:
  "py_int int_of_str (usage_get usage ''claude_cache_creation_5_m_tokens'' (PyInt 0)) = Inl err
   \<Longrightarrow> extract_cache_creation_tokens int_of_str usage = Inl err"
  by (simp add: extract_cache_creation_tokens_def Let_def)

lemma extract_raises_second:
  "py_int int_of_str (usage_get usage ''claude_cache_creation_5_m_tokens'' (PyInt 0)) = Inr a
   \<Longrightarrow> py_int int_of_str (usage_get usage ''claude_cache_creation_1_h_tokens'' (PyInt 0)) = Inl err
   \<Longrightarrow> extract_cache_creation_tokens int_of_str usage = Inl err"
  by (simp add: extract_cache_creation_tokens_def Let_def)

lemma extract_new_format:
  "py_int int_of_str (usage_get usage ''claude_cache_creation_5_m_tokens'' (PyInt 0)) = Inr a
   \<Longrightarrow> py_int int_of_str (usage_get usage ''claude_cache_creation_1_h_tokens'' (PyInt 0)) = Inr b
   \<Longrightarrow> 0 < a + b
   \<Longrightarrow> extract_cache_creation_tokens int_of_str usage = Inr (a + b)"
  by (simp add: extract_cache_creation_tokens_def Let_def)

lemma extract_old_format:
  "py_int int_of_str (usage_get usage ''claude_cache_creation_5_m_tokens'' (PyInt 0)) = Inr a
   \<Longrightarrow> py_int int_of_str (usage_get usage ''claude_cache_creation_1_h_tokens'' (PyInt 0)) = Inr b
   \<Longrightarrow> a + b \<le> 0
   \<Longrightarrow> extract_cache_creation_tokens int_of_str usage
        = py_int int_of_str (usage_get usage ''cache_creation_input_tokens'' (PyInt 0))"
  by (simp add: extract_cache_creation_tokens_def Let_def)

text \<open>
  Claim C9, as the code has it. Write \<open>field k\<close> for \<open>int\<close> of the value at \<open>k\<close>,
  with 0 for an absent key. For every usage dictionary: when the two new-format fields
  convert to \<open>a\<close> and \<open>b\<close> and \<open>a + b\<close> is strictly positive the function returns
  \<open>a + b\<close>; when \<open>a + b\<close> is not positive and the old-format field converts to \<open>c\<close>
  it returns \<open>c\<close>; an absent field counts as zero. On a dictionary whose three fields
  are absent or integers this is the sum of the new-format fields when that sum is
  strictly positive, and the old-format field otherwise.
\<close>

theorem extract_cache_creation_tokens_coerced:
  fixes int_of_str :: "string \<Rightarrow> int option" and usage :: "string \<rightharpoonup> pyval"
  defines "field \<equiv> (\<lambda>k. py_int int_of_str (case usage k of None \<Rightarrow> PyInt 0 | Some v \<Rightarrow> v))"
  shows
    "(field ''claude_cache_creation_5_m_tokens'' = Inr a
        \<and> field ''claude_cache_creation_1_h_tokens'' = Inr b \<and> 0 < a + b
      \<longrightarrow> extract_cache_creation_tokens int_of_str usage = Inr (a + b))
     \<and> (field ''claude_cache_creation_5_m_tokens'' = Inr a
        \<and> field ''claude_cache_creation_1_h_tokens'' = Inr b \<and> a + b \<le> 0
        \<and> field ''cache_creation_input_tokens'' = Inr c
      \<longrightarrow> extract_cache_creation_tokens int_of_str usage = Inr c)
     \<and> (usage k = None \<longrightarrow> field k = Inr 0)
     \<and> (int_or_absent usage ''claude_cache_creation_5_m_tokens''
        \<and> int_or_absent usage ''claude_cache_creation_1_h_tokens''
        \<and> int_or_absent usage ''cache_creation_input_tokens''
      \<longrightarrow> extract_cache_creation_tokens int_of_str usage =
            Inr (if 0 < token_count usage ''claude_cache_creation_5_m_tokens''
                       + token_count usage ''claude_cache_creation_1_h_tokens''
                 then token_count usage ''claude_cache_creation_5_m_tokens''
                      + token_count usage ''claude_cache_creation_1_h_tokens''
                 else token_count usage ''cache_creation_input_tokens''))"
proof -
  have g: "field k' = py_int int_of_str (usage_get usage k' (PyInt 0))" for k'
    by (simp add: field_def usage_get_def split: option.splits)
  have new: "field ''claude_cache_creation_5_m_tokens'' = Inr a
        \<and> field ''claude_cache_creation_1_h_tokens'' = Inr b \<and> 0 < a + b
      \<longrightarrow> extract_cache_creation_tokens int_of_str usage = Inr (a + b)"
    unfolding g using extract_new_format [of int_of_str usage a b] by blast
  have old: "field ''claude_cache_creation_5_m_tokens'' = Inr a
        \<and> field ''claude_cache_creation_1_h_tokens'' = Inr b \<and> a + b \<le> 0
        \<and> field ''cache_creation_input_tokens'' = Inr c
      \<longrightarrow> extract_cache_creation_tokens int_of_str usage = Inr c"
    unfolding g using extract_old_format [of int_of_str usage a b] by auto
  have absent: "usage k = None \<longrightarrow> field k = Inr 0"
    unfolding g using usage_get_absent [of usage k int_of_str] by blast
  have ints: "int_or_absent usage ''claude_cache_creation_5_m_tokens''
        \<and> int_or_absent usage ''claude_cache_creation_1_h_tokens''
        \<and> int_or_absent usage ''cache_creation_input_tokens''
      \<longrightarrow> extract_cache_creation_tokens int_of_str usage =
            Inr (if 0 < token_count usage ''claude_cache_creation_5_m_tokens''
                       + token_count usage ''claude_cache_creation_1_h_tokens''
                 then token_count usage ''claude_cache_creation_5_m_tokens''
                      + token_count usage ''claude_cache_creation_1_h_tokens''
                 else token_count usage ''cache_creation_input_tokens'')"
    by (simp add: extract_cache_creation_tokens_def Let_def usage_get_int_or_absent)
  from new old absent ints show ?thesis by blast
qed

lemma plain_decimal_12: "plain_decimal ''12'' = Some 12"
  by code_simp

theorem extract_cache_creation_tokens_coerced_witness:
  "extract_cache_creation_tokens plain_decimal mixed_usage = Inr 13
   \<and> extract_cache_creation_tokens plain_decimal old_format_usage = Inr 11
   \<and> extract_cache_creation_tokens plain_decimal Map.empty = Inr 0"
proof -
  have m: "py_int plain_decimal
             (case mixed_usage ''claude_cache_creation_5_m_tokens'' of
                None \<Rightarrow> PyInt 0 | Some v \<Rightarrow> v) = Inr 1"
    "py_int plain_decimal
             (case mixed_usage ''claude_cache_creation_1_h_tokens'' of
                None \<Rightarrow> PyInt 0 | Some v \<Rightarrow> v) = Inr 12"
    by (simp_all add: mixed_usage_def float_trunc_def plain_decimal_12)
  have o: "int_or_absent old_format_usage ''claude_cache_creation_5_m_tokens''"
    "int_or_absent old_format_usage ''claude_cache_creation_1_h_tokens''"
    "int_or_absent old_format_usage ''cache_creation_input_tokens''"
    "token_count old_format_usage ''claude_cache_creation_5_m_tokens'' = 0"
    "token_count old_format_usage ''claude_cache_creation_1_h_tokens'' = 0"
    "token_count old_format_usage ''cache_creation_input_tokens'' = 11"
    by (simp_all add: old_format_usage_def int_or_absent_def token_count_def)
  have e: "int_or_absent Map.empty k" "token_count Map.empty k = 0" for k
    by (simp_all add: int_or_absent_def token_count_def)
  from extract_cache_creation_tokens_coerced [of plain_decimal mixed_usage 1 12 0 "''x''"]
    extract_cache_creation_tokens_coerced [of plain_decimal old_format_usage 0 0 0 "''x''"]
    extract_cache_creation_tokens_coerced [of plain_decimal Map.empty 0 0 0 "''x''"]
  show ?thesis
    using m o e by simp
qed

text \<open>
  Claim C9 as stated speaks of every usage dictionary and of the sum of the fields. A
  field that is present and \<open>None\<close> makes \<open>int\<close> raise \<open>TypeError\<close>, so nothing is
  returned. Two fields holding the float 0.5 (\<open>Finite 1 (-1)\<close>) have the strictly
  positive sum 1.0, yet each converts to 0 and the function returns the old-format
  field, here 7.
\<close>

theorem extract_cache_creation_tokens_counterexample:
  "extract_cache_creation_tokens plain_decimal
     [''claude_cache_creation_5_m_tokens'' \<mapsto> PyNone] = Inl TypeError
   \<and> extract_cache_creation_tokens plain_decimal
     [''claude_cache_creation_5_m_tokens'' \<mapsto> PyFloat (Finite 1 (- 1)),
      ''claude_cache_creation_1_h_tokens'' \<mapsto> PyFloat (Finite 1 (- 1)),
      ''cache_creation_input_tokens'' \<mapsto> PyInt 7] = Inr 7"
  by (simp add: extract_cache_creation_tokens_def usage_get_def float_trunc_def Let_def)


section \<open>Concurrency counters stay non-negative\<close>

lemma acquire_nonneg:
  assumes "counters_nonneg s"
  shows "counters_nonneg (snd (acquire cfg s eid kid))"
proof -
  from assms have e: "\<And>x. 0 \<le> endpoint_count s x" and k: "\<And>x. 0 \<le> key_count s x"
    by (simp_all add: counters_nonneg_def)
  have "0 \<le> endpoint_count (snd (acquire cfg s eid kid)) x" for x
    using e [of x] by (cases eid) (auto simp: acquire_def Let_def)
  moreover have "0 \<le> key_count (snd (acquire cfg s eid kid)) x" for x
    using k [of x] by (cases kid) (auto simp: acquire_def Let_def)
  ultimately show ?thesis
    by (simp add: counters_nonneg_def)
qed

lemma release_nonneg:
  assumes "counters_nonneg s"
  shows "counters_nonneg (release s eid kid)"
proof -
  from assms have e: "\<And>x. 0 \<le> endpoint_count s x" and k: "\<And>x. 0 \<le> key_count s x"
    by (simp_all add: counters_nonneg_def)
  have "0 \<le> endpoint_count (release s eid kid) x" for x
    using e [of x] by (cases eid) (simp_all add: release_def)
  moreover have "0 \<le> key_count (release s eid kid) x" for x
    using k [of x] by (cases kid) (simp_all add: release_def)
  ultimately show ?thesis
    by (simp add: counters_nonneg_def)
qed

lemma reset_nonneg:
  assumes "counters_nonneg s"
  shows "counters_nonneg (reset_concurrency s eid kid)"
proof -
  from assms have e: "\<And>x. 0 \<le> endpoint_count s x" and k: "\<And>x. 0 \<le> key_count s x"
    by (simp_all add: counters_nonneg_def)
  have "0 \<le> endpoint_count (reset_concurrency s eid kid) x" for x
    using e [of x] by (cases eid) (simp_all add: reset_concurrency_def)
  moreover have "0 \<le> key_count (reset_concurrency s eid kid) x" for x
    using k [of x] by (cases kid) (simp_all add: reset_concurrency_def)
  ultimately show ?thesis
    by (simp add: counters_nonneg_def)
qed

lemma apply_slot_op_nonneg:
  "counters_nonneg s \<Longrightarrow> counters_nonneg (apply_slot_op cfg s x)"
  by (cases x) (simp_all add: acquire_nonneg release_nonneg reset_nonneg)

lemma run_slot_ops_nonneg:
  "counters_nonneg s \<Longrightarrow> counters_nonneg (run_slot_ops cfg s xs)"
  by (induction xs arbitrary: s) (simp_all add: apply_slot_op_nonneg)

lemma run_slot_ops_append:
  "run_slot_ops cfg s (xs @ ys) = run_slot_ops cfg (run_slot_ops cfg s xs) ys"
  by (induction xs arbitrary: s) simp_all

lemma release_endpoint_value:
  "endpoint_count (release s (Some e) kid) e = max 0 (endpoint_count s e - 1)"
  by (simp add: release_def)

lemma release_key_value:
  "key_count (release s eid (Some k)) k = max 0 (key_count s k - 1)"
  by (simp add: release_def)

lemma repeated_release_endpoint:
  "0 \<le> endpoint_count s e \<Longrightarrow>
   endpoint_count (run_slot_ops cfg s (replicate n (Release (Some e) kid))) e
     = max 0 (endpoint_count s e - int n)"
proof (induction n arbitrary: s)
  case 0
  then show ?case by simp
next
  case (Suc n)
  let ?s = "release s (Some e) kid"
  have v: "endpoint_count ?s e = max 0 (endpoint_count s e - 1)"
    by (rule release_endpoint_value)
  then have "0 \<le> endpoint_count ?s e" by simp
  from Suc.IH [OF this] v Suc.prems show ?case by simp
qed

lemma repeated_release_key:
  "0 \<le> key_count s k \<Longrightarrow>
   key_count (run_slot_ops cfg s (replicate n (Release eid (Some k)))) k
     = max 0 (key_count s k - int n)"
proof (induction n arbitrary: s)
  case 0
  then show ?case by simp
next
  case (Suc n)
  let ?s = "release s eid (Some k)"
  have v: "key_count ?s k = max 0 (key_count s k - 1)"
    by (rule release_key_value)
  then have "0 \<le> key_count ?s k" by simp
  from Suc.IH [OF this] v Suc.prems show ?case by simp
qed

text \<open>
  Claim C5. Starting with no traffic, after every sequence of \<open>acquire\<close>, \<open>release\<close>
  (and \<open>reset\<close>) operations every endpoint counter and every key counter is at least
  zero. A \<open>release\<close> on a counter that is at zero leaves it at zero, and \<open>n\<close> further
  releases after any such sequence bring a counter \<open>c\<close> to \<open>max 0 (c - n)\<close>, whatever
  \<open>n\<close> is.
\<close>

theorem release_never_negative:
  "counters_nonneg (run_slot_ops cfg no_traffic ops)
   \<and> (\<forall>s e kid. endpoint_count s e = 0 \<longrightarrow> endpoint_count (release s (Some e) kid) e = 0)
   \<and> (\<forall>s k eid. key_count s k = 0 \<longrightarrow> key_count (release s eid (Some k)) k = 0)
   \<and> (\<forall>e kid n.
        endpoint_count
          (run_slot_ops cfg no_traffic (ops @ replicate n (Release (Some e) kid))) e
        = max 0 (endpoint_count (run_slot_ops cfg no_traffic ops) e - int n))
   \<and> (\<forall>k eid n.
        key_count
          (run_slot_ops cfg no_traffic (ops @ replicate n (Release eid (Some k)))) k
        = max 0 (key_count (run_slot_ops cfg no_traffic ops) k - int n))"
proof -
  have z: "counters_nonneg no_traffic"
    by (simp add: counters_nonneg_def no_traffic_def)
  then have inv: "counters_nonneg (run_slot_ops cfg no_traffic ops)"
    by (rule run_slot_ops_nonneg)
  then have e: "0 \<le> endpoint_count (run_slot_ops cfg no_traffic ops) x"
    and k: "0 \<le> key_count (run_slot_ops cfg no_traffic ops) x" for x
    by (simp_all add: counters_nonneg_def)
  show ?thesis
    using inv repeated_release_endpoint [OF e] repeated_release_key [OF k]
    by (simp add: run_slot_ops_append release_endpoint_value release_key_value)
qed

theorem release_never_negative_witness:
  "counters_nonneg
     (run_slot_ops one_slot no_traffic
        [Acquire (Some ''e-1'') (Some ''k-1''), Acquire (Some ''e-1'') (Some ''k-1''),
         Release (Some ''e-1'') (Some ''k-1'')])
   \<and> endpoint_count
        (run_slot_ops one_slot no_traffic
           ([Acquire (Some ''e-1'') (Some ''k-1''), Acquire (Some ''e-1'') (Some ''k-1''),
             Release (Some ''e-1'') (Some ''k-1'')]
            @ replicate 3 (Release (Some ''e-1'') None))) ''e-1'' = 0
   \<and> endpoint_count (release no_traffic (Some ''e-1'') None) ''e-1'' = 0"
proof -
  let ?ops = "[Acquire (Some ''e-1'') (Some ''k-1''), Acquire (Some ''e-1'') (Some ''k-1''),
               Release (Some ''e-1'') (Some ''k-1'')]"
  have v: "endpoint_count (run_slot_ops one_slot no_traffic ?ops) ''e-1'' = 0"
    by (simp add: acquire_def release_def no_traffic_def one_slot_def has_room_def Let_def)
  have z: "endpoint_count no_traffic ''e-1'' = 0"
    by (simp add: no_traffic_def)
  from release_never_negative [of one_slot ?ops] v z show ?thesis
    by simp
qed

section \<open>Attempts on a verification code\<close>

lemma verify_code_wrong:
  assumes "r (VERIFICATION_PREFIX @ email) = Some (pending_code c a ts t)"
    and "a < 5" and "0 < t" and "is_ascii c" and "is_ascii g" and "g \<noteq> c"
  shows "verify_code (Some r) email g =
     ((False, msg_wrong_code (5 - (a + 1))),
      Some (r(VERIFICATION_PREFIX @ email \<mapsto> pending_code c (a + 1) ts t)))"
  using assms
  by (simp add: verify_code_def redis_get_def pending_code_def verification_data_def
      DEFAULT_MAX_ATTEMPTS_def compare_digest_def redis_ttl_def redis_setex_def Let_def)

lemma verify_code_wrong_expiring:
  assumes "r (VERIFICATION_PREFIX @ email) = Some (pending_code c a ts t)"
    and "a < 5" and "t \<le> 0" and "is_ascii c" and "is_ascii g" and "g \<noteq> c"
  shows "verify_code (Some r) email g = ((False, msg_wrong_code (5 - (a + 1))), Some r)"
  using assms
  by (simp add: verify_code_def redis_get_def pending_code_def verification_data_def
      DEFAULT_MAX_ATTEMPTS_def compare_digest_def redis_ttl_def Let_def)

lemma verify_code_at_limit:
  assumes "r (VERIFICATION_PREFIX @ email) = Some (pending_code c a ts t)"
    and "5 \<le> a"
  shows "verify_code (Some r) email g =
     ((False, msg_too_many_attempts), Some (r(VERIFICATION_PREFIX @ email := None)))"
  using assms
  by (simp add: verify_code_def redis_get_def pending_code_def verification_data_def
      DEFAULT_MAX_ATTEMPTS_def redis_delete_def Let_def)

lemma verify_code_missing:
  assumes "r (VERIFICATION_PREFIX @ email) = None"
  shows "verify_code (Some r) email g = ((False, msg_code_missing), Some r)"
  using assms
  by (simp add: verify_code_def redis_get_def Let_def)

lemma verify_code_match:
  assumes "r (VERIFICATION_PREFIX @ email) = Some (pending_code c a ts t)"
    and "a < 5" and "is_ascii c"
  shows "verify_code (Some r) email c =
     ((True, msg_verified),
      Some ((r(VERIFICATION_PREFIX @ email := None))
              (VERIFIED_PREFIX @ email \<mapsto> \<lparr> re_value = Raw ''verified'', re_ttl = 3600 \<rparr>)))"
  using assms
  by (simp add: verify_code_def redis_get_def pending_code_def verification_data_def
      DEFAULT_MAX_ATTEMPTS_def compare_digest_def redis_delete_def redis_setex_def Let_def)

lemma verified_key_differs: "VERIFIED_PREFIX @ e1 \<noteq> VERIFICATION_PREFIX @ e2"
  by (simp add: VERIFIED_PREFIX_def VERIFICATION_PREFIX_def)

lemma verify_codes_append:
  "verify_codes client email (xs @ ys) =
     (let (res1, client1) = verify_codes client email xs;
          (res2, client2) = verify_codes client1 email ys
      in (res1 @ res2, client2))"
  by (induction xs arbitrary: client) (simp_all add: Let_def split: prod.splits)

lemma verify_codes_missing:
  assumes "r (VERIFICATION_PREFIX @ email) = None"
  shows "verify_codes (Some r) email gs = (map (\<lambda>_. (False, msg_code_missing)) gs, Some r)"
  using assms
  by (induction gs) (simp_all add: verify_code_missing)

lemma verify_codes_at_limit:
  assumes "r (VERIFICATION_PREFIX @ email) = Some (pending_code c a ts t)"
    and "5 \<le> a"
  shows "list_all (\<lambda>res. \<not> fst res) (fst (verify_codes (Some r) email gs))
    \<and> (gs \<noteq> [] \<longrightarrow>
         snd (verify_codes (Some r) email gs) = Some (r(VERIFICATION_PREFIX @ email := None)))"
proof (cases gs)
  case Nil
  then show ?thesis by simp
next
  case (Cons g rest)
  let ?r = "r(VERIFICATION_PREFIX @ email := None)"
  have "?r (VERIFICATION_PREFIX @ email) = None" by simp
  then have "verify_codes (Some ?r) email rest
      = (map (\<lambda>_. (False, msg_code_missing)) rest, Some ?r)"
    by (rule verify_codes_missing)
  with Cons verify_code_at_limit [of r email c a ts t g, OF assms] show ?thesis
    by (simp add: list_all_iff)
qed

lemma verify_codes_wrong:
  assumes "r (VERIFICATION_PREFIX @ email) = Some (pending_code c a ts t)"
    and "0 < t" and "is_ascii c"
    and "list_all (\<lambda>g. is_ascii g \<and> g \<noteq> c) gs"
    and "a + int (length gs) \<le> 5"
  shows "list_all (\<lambda>res. \<not> fst res) (fst (verify_codes (Some r) email gs))
    \<and> snd (verify_codes (Some r) email gs)
        = Some (r(VERIFICATION_PREFIX @ email \<mapsto> pending_code c (a + int (length gs)) ts t))"
  using assms
proof (induction gs arbitrary: r a)
  case Nil
  then show ?case by (simp add: fun_upd_idem)
next
  case (Cons g gs)
  let ?k = "VERIFICATION_PREFIX @ email"
  let ?r = "r(?k \<mapsto> pending_code c (a + 1) ts t)"
  from Cons.prems have g: "is_ascii g" "g \<noteq> c" and a: "a < 5" by simp_all
  have step: "verify_code (Some r) email g = ((False, msg_wrong_code (5 - (a + 1))), Some ?r)"
    using Cons.prems(1) a Cons.prems(2,3) g by (rule verify_code_wrong)
  have "?r ?k = Some (pending_code c (a + 1) ts t)" by simp
  moreover from Cons.prems have "list_all (\<lambda>g. is_ascii g \<and> g \<noteq> c) gs"
    and "(a + 1) + int (length gs) \<le> 5" by simp_all
  ultimately have ih: "list_all (\<lambda>res. \<not> fst res) (fst (verify_codes (Some ?r) email gs))
    \<and> snd (verify_codes (Some ?r) email gs)
        = Some (?r(?k \<mapsto> pending_code c ((a + 1) + int (length gs)) ts t))"
    using Cons.prems(2,3) by (intro Cons.IH)
  from ih have ih1: "list_all (\<lambda>res. \<not> fst res) (fst (verify_codes (Some ?r) email gs))"
    and ih2: "snd (verify_codes (Some ?r) email gs)
        = Some (?r(?k \<mapsto> pending_code c ((a + 1) + int (length gs)) ts t))"
    by blast+
  have cnt: "(a + 1) + int (length gs) = a + int (length (g # gs))"
    by simp
  have unfold: "verify_codes (Some r) email (g # gs)
     = ((False, msg_wrong_code (5 - (a + 1))) # fst (verify_codes (Some ?r) email gs),
        snd (verify_codes (Some ?r) email gs))"
    by (simp add: step split_beta)
  have "list_all (\<lambda>res. \<not> fst res) (fst (verify_codes (Some r) email (g # gs)))"
    unfolding unfold using ih1 by simp
  moreover have "snd (verify_codes (Some r) email (g # gs))
      = Some (r(?k \<mapsto> pending_code c (a + int (length (g # gs))) ts t))"
    unfolding unfold snd_conv ih2 cnt by simp
  ultimately show ?case
    by blast
qed

lemma verify_codes_exhausted:
  assumes "r (VERIFICATION_PREFIX @ email) = Some (pending_code c 0 ts t)"
    and "0 < t" and "is_ascii c"
    and "list_all (\<lambda>g. is_ascii g \<and> g \<noteq> c) gs" and "length gs = 5"
  shows "list_all (\<lambda>res. \<not> fst res) (fst (verify_codes (Some r) email (gs @ later)))
    \<and> (later \<noteq> [] \<longrightarrow>
         snd (verify_codes (Some r) email (gs @ later))
           = Some (r(VERIFICATION_PREFIX @ email := None)))"
proof -
  let ?k = "VERIFICATION_PREFIX @ email"
  let ?r = "r(?k \<mapsto> pending_code c 5 ts t)"
  from assms(5) have "0 + int (length gs) \<le> 5" by simp
  with verify_codes_wrong [of r email c 0 ts t gs, OF assms(1-4)] assms(5)
  have first: "list_all (\<lambda>res. \<not> fst res) (fst (verify_codes (Some r) email gs))"
    and mid: "snd (verify_codes (Some r) email gs) = Some ?r"
    by simp_all
  have "?r ?k = Some (pending_code c 5 ts t)" by simp
  from verify_codes_at_limit [of ?r email c 5 ts t later, OF this]
  have rest: "list_all (\<lambda>res. \<not> fst res) (fst (verify_codes (Some ?r) email later))"
    and fin: "later \<noteq> [] \<longrightarrow> snd (verify_codes (Some ?r) email later) = Some (?r(?k := None))"
    by simp_all
  from first mid rest fin show ?thesis
    by (simp add: verify_codes_append split_beta Let_def)
qed


text \<open>
  Claim C10, as the code has it. For a stored verification code (an ASCII code, with
  \<open>a\<close> attempts recorded and \<open>t\<close> the time to live Redis reports):
  \<^item> a call with a wrong ASCII code while \<open>a < 5\<close> and \<open>0 < t\<close> fails and stores the
    count \<open>a + 1\<close>, keeping the time to live;
  \<^item> the same call while \<open>t \<le> 0\<close> fails and leaves the store as it was;
  \<^item> a call that finds \<open>5 \<le> a\<close> fails, whatever the code, and deletes the entry;
  \<^item> after five wrong ASCII guesses at a new code (with \<open>0 < t\<close>) every further call
    fails, the right code included, and the first of them deletes the entry: at most
    five attempts are compared with the code;
  \<^item> a call with the right code while \<open>a < 5\<close> succeeds and deletes the entry, and a
    second call with the same code fails.
\<close>

theorem verify_code_attempt_limit:
  assumes "r (VERIFICATION_PREFIX @ email) = Some (pending_code c a ts t)"
    and "is_ascii c"
  shows
    "(a < 5 \<and> 0 < t \<and> is_ascii g \<and> g \<noteq> c \<longrightarrow>
        verify_code (Some r) email g =
          ((False, msg_wrong_code (5 - (a + 1))),
           Some (r(VERIFICATION_PREFIX @ email \<mapsto> pending_code c (a + 1) ts t))))
     \<and> (a < 5 \<and> t \<le> 0 \<and> is_ascii g \<and> g \<noteq> c \<longrightarrow>
        verify_code (Some r) email g = ((False, msg_wrong_code (5 - (a + 1))), Some r))
     \<and> (5 \<le> a \<longrightarrow>
        verify_code (Some r) email g =
          ((False, msg_too_many_attempts), Some (r(VERIFICATION_PREFIX @ email := None))))
     \<and> (a = 0 \<and> 0 < t \<and> length gs = 5 \<and> list_all (\<lambda>x. is_ascii x \<and> x \<noteq> c) gs \<longrightarrow>
        list_all (\<lambda>res. \<not> fst res) (fst (verify_codes (Some r) email (gs @ later)))
        \<and> (later \<noteq> [] \<longrightarrow>
             snd (verify_codes (Some r) email (gs @ later))
               = Some (r(VERIFICATION_PREFIX @ email := None))))
     \<and> (a < 5 \<longrightarrow>
        (\<exists>r'. verify_code (Some r) email c = ((True, msg_verified), Some r')
           \<and> r' (VERIFICATION_PREFIX @ email) = None
           \<and> verify_code (Some r') email c = ((False, msg_code_missing), Some r')))"
proof -
  let ?k = "VERIFICATION_PREFIX @ email"
  have one: "a < 5 \<and> 0 < t \<and> is_ascii g \<and> g \<noteq> c \<longrightarrow>
        verify_code (Some r) email g =
          ((False, msg_wrong_code (5 - (a + 1))),
           Some (r(?k \<mapsto> pending_code c (a + 1) ts t)))"
    using verify_code_wrong [of r email c a ts t g] assms by blast
  have stale: "a < 5 \<and> t \<le> 0 \<and> is_ascii g \<and> g \<noteq> c \<longrightarrow>
        verify_code (Some r) email g = ((False, msg_wrong_code (5 - (a + 1))), Some r)"
    using verify_code_wrong_expiring [of r email c a ts t g] assms by blast
  have two: "5 \<le> a \<longrightarrow>
        verify_code (Some r) email g = ((False, msg_too_many_attempts), Some (r(?k := None)))"
    using verify_code_at_limit [of r email c a ts t g] assms by blast
  have three: "a = 0 \<and> 0 < t \<and> length gs = 5 \<and> list_all (\<lambda>x. is_ascii x \<and> x \<noteq> c) gs \<longrightarrow>
        list_all (\<lambda>res. \<not> fst res) (fst (verify_codes (Some r) email (gs @ later)))
        \<and> (later \<noteq> [] \<longrightarrow>
             snd (verify_codes (Some r) email (gs @ later)) = Some (r(?k := None)))"
    using verify_codes_exhausted [of r email c ts t gs later] assms by blast
  have four: "\<exists>r'. verify_code (Some r) email c = ((True, msg_verified), Some r')
           \<and> r' ?k = None
           \<and> verify_code (Some r') email c = ((False, msg_code_missing), Some r')"
    if "a < 5"
  proof -
    let ?r = "(r(?k := None))
                (VERIFIED_PREFIX @ email \<mapsto> \<lparr> re_value = Raw ''verified'', re_ttl = 3600 \<rparr>)"
    have "verify_code (Some r) email c = ((True, msg_verified), Some ?r)"
      using assms(1) that assms(2) by (rule verify_code_match)
    moreover have gone: "?r ?k = None"
      using verified_key_differs [of email email] by simp
    moreover from gone have "verify_code (Some ?r) email c = ((False, msg_code_missing), Some ?r)"
      by (rule verify_code_missing)
    ultimately show ?thesis by blast
  qed
  from one stale two three four show ?thesis by blast
qed

lemma demo_ascii: "is_ascii ''123456''" "list_all (\<lambda>x. is_ascii x \<and> x \<noteq> ''123456'') five_wrong"
  "is_ascii ''000000''"
  by (simp_all add: is_ascii_def five_wrong_def)

theorem verify_code_attempt_limit_witness:
  "verify_code (Some (demo_store 0 1800)) ''a@b.c'' ''000000'' =
      ((False, msg_wrong_code 4), Some (demo_store 1 1800))
   \<and> verify_code (Some (demo_store 5 1800)) ''a@b.c'' ''123456'' =
      ((False, msg_too_many_attempts), Some Map.empty)
   \<and> list_all (\<lambda>res. \<not> fst res)
        (fst (verify_codes (Some (demo_store 0 1800)) ''a@b.c'' (five_wrong @ [''123456''])))
   \<and> snd (verify_codes (Some (demo_store 0 1800)) ''a@b.c'' (five_wrong @ [''123456'']))
        = Some Map.empty
   \<and> (\<exists>r'. verify_code (Some (demo_store 4 1800)) ''a@b.c'' ''123456''
              = ((True, msg_verified), Some r')
          \<and> verify_code (Some r') ''a@b.c'' ''123456'' = ((False, msg_code_missing), Some r'))"
proof -
  let ?ts = "''2026-01-01T00:00:00+00:00''"
  have s: "demo_store n t (VERIFICATION_PREFIX @ ''a@b.c'')
      = Some (pending_code ''123456'' n ?ts t)" for n t
    by (simp add: demo_store_def)
  have u: "(demo_store n t)(VERIFICATION_PREFIX @ ''a@b.c'' \<mapsto> pending_code ''123456'' m ?ts t)
      = demo_store m t" for n m t
    by (simp add: demo_store_def)
  have d: "(demo_store n t)(VERIFICATION_PREFIX @ ''a@b.c'' := None) = Map.empty" for n t
    by (simp add: demo_store_def)
  have l: "length five_wrong = 5"
    by (simp add: five_wrong_def)
  from verify_code_attempt_limit [of "demo_store 0 1800" "''a@b.c''" "''123456''" 0 ?ts 1800
        "''000000''" five_wrong "[''123456'']", OF s demo_ascii(1)]
    verify_code_attempt_limit [of "demo_store 5 1800" "''a@b.c''" "''123456''" 5 ?ts 1800
        "''123456''" five_wrong "[]", OF s demo_ascii(1)]
    verify_code_attempt_limit [of "demo_store 4 1800" "''a@b.c''" "''123456''" 4 ?ts 1800
        "''123456''" five_wrong "[]", OF s demo_ascii(1)]
  show ?thesis
    using demo_ascii l by (simp add: u d) blast
qed

text \<open>
  Claim C10 as stated has every failed call increment the persisted attempt count. The
  write-back is guarded by \<open>if ttl > 0\<close>: on an entry in its last moments, for which
  Redis reports a time to live of 0, a wrong guess fails and the stored count stays 0.
\<close>

theorem verify_code_expiring_counterexample:
  "verify_code (Some (demo_store 0 0)) ''a@b.c'' ''000000''
     = ((False, msg_wrong_code 4), Some (demo_store 0 0))
   \<and> demo_store 0 0 (VERIFICATION_PREFIX @ ''a@b.c'')
     = Some (pending_code ''123456'' 0 ''2026-01-01T00:00:00+00:00'' 0)"
  by (simp add: verify_code_def redis_get_def pending_code_def verification_data_def
      DEFAULT_MAX_ATTEMPTS_def compare_digest_def redis_ttl_def demo_store_def is_ascii_def
      Let_def)

section \<open>Rate-limited requests\<close>

lemma login_rate_limited:
  assumes "CheckLimit (get_client_ip env) ''login'' \<in> set (fst (AuthLoginAdapter_handle env))"
    and "check_limit env (get_client_ip env) ''login'' = (False, remaining, reset_after)"
  shows "AuthLoginAdapter_handle env =
           ([CheckLimit (get_client_ip env) ''login'', LoggerWarning],
            Inl (HTTPException 429 (login_limit_prefix @ py_str reset_after @ retry_suffix)))"
  using assms
  by (auto simp: AuthLoginAdapter_handle_def Let_def split: sum.splits)

lemma register_rate_limited:
  assumes "CheckLimit (get_client_ip env) ''register''
             \<in> set (fst (AuthRegisterAdapter_handle env))"
    and "check_limit env (get_client_ip env) ''register'' = (False, remaining, reset_after)"
  shows "AuthRegisterAdapter_handle env =
           ([CheckLimit (get_client_ip env) ''register'', LoggerWarning],
            Inl (HTTPException 429 (register_limit_prefix @ py_str reset_after @ retry_suffix)))"
  using assms
  by (auto simp: AuthRegisterAdapter_handle_def Let_def split: sum.splits)

lemma send_rate_limited:
  assumes "CheckLimit (get_client_ip env) ''verification_send''
             \<in> set (fst (AuthSendVerificationCodeAdapter_handle env))"
    and "check_limit env (get_client_ip env) ''verification_send''
           = (False, remaining, reset_after)"
  shows "AuthSendVerificationCodeAdapter_handle env =
           ([CheckLimit (get_client_ip env) ''verification_send'', LoggerWarning],
            Inl (HTTPException 429 (request_limit_prefix @ py_str reset_after @ retry_suffix)))"
  using assms
  by (auto simp: AuthSendVerificationCodeAdapter_handle_def Let_def split: sum.splits)

lemma verify_rate_limited:
  assumes "CheckLimit (get_client_ip env) ''verification_verify''
             \<in> set (fst (fst (AuthVerifyEmailAdapter_handle env client)))"
    and "check_limit env (get_client_ip env) ''verification_verify''
           = (False, remaining, reset_after)"
  shows "AuthVerifyEmailAdapter_handle env client =
           (([CheckLimit (get_client_ip env) ''verification_verify'', LoggerWarning],
             Inl (HTTPException 429 (request_limit_prefix @ py_str reset_after @ retry_suffix))),
            client)"
  using assms
  by (auto simp: AuthVerifyEmailAdapter_handle_def Let_def split: sum.splits)

lemma no_guarded_call_in_rejection:
  "\<not> list_ex guarded_call [CheckLimit ip action, LoggerWarning]"
  by simp

text \<open>
  Claim C7. Whenever one of the four handlers (login, register, verification send,
  verification verify) has consulted \<open>IPRateLimiter.check_limit\<close> and the answer is
  not allowed, the handler raises \<open>HTTPException\<close> with status 429 whose detail
  contains the decimal \<open>reset_after\<close> the limiter returned, between the handler's
  fixed words. The only calls it made are the limiter check and a log line: no
  authentication, no user creation, no sending and no checking of a code, and the
  verification store is untouched.
\<close>

theorem rate_limited_request_rejected:
  "(CheckLimit (get_client_ip env) ''login'' \<in> set (fst (AuthLoginAdapter_handle env))
      \<and> check_limit env (get_client_ip env) ''login'' = (False, remaining, reset_after)
    \<longrightarrow> AuthLoginAdapter_handle env =
          ([CheckLimit (get_client_ip env) ''login'', LoggerWarning],
           Inl (HTTPException 429 (login_limit_prefix @ py_str reset_after @ retry_suffix)))
        \<and> \<not> list_ex guarded_call (fst (AuthLoginAdapter_handle env)))
   \<and> (CheckLimit (get_client_ip env) ''register'' \<in> set (fst (AuthRegisterAdapter_handle env))
      \<and> check_limit env (get_client_ip env) ''register'' = (False, remaining, reset_after)
    \<longrightarrow> AuthRegisterAdapter_handle env =
          ([CheckLimit (get_client_ip env) ''register'', LoggerWarning],
           Inl (HTTPException 429 (register_limit_prefix @ py_str reset_after @ retry_suffix)))
        \<and> \<not> list_ex guarded_call (fst (AuthRegisterAdapter_handle env)))
   \<and> (CheckLimit (get_client_ip env) ''verification_send''
        \<in> set (fst (AuthSendVerificationCodeAdapter_handle env))
      \<and> check_limit env (get_client_ip env) ''verification_send''
          = (False, remaining, reset_after)
    \<longrightarrow> AuthSendVerificationCodeAdapter_handle env =
          ([CheckLimit (get_client_ip env) ''verification_send'', LoggerWarning],
           Inl (HTTPException 429 (request_limit_prefix @ py_str reset_after @ retry_suffix)))
        \<and> \<not> list_ex guarded_call (fst (AuthSendVerificationCodeAdapter_handle env)))
   \<and> (CheckLimit (get_client_ip env) ''verification_verify''
        \<in> set (fst (fst (AuthVerifyEmailAdapter_handle env client)))
      \<and> check_limit env (get_client_ip env) ''verification_verify''
          = (False, remaining, reset_after)
    \<longrightarrow> AuthVerifyEmailAdapter_handle env client =
          (([CheckLimit (get_client_ip env) ''verification_verify'', LoggerWarning],
            Inl (HTTPException 429 (request_limit_prefix @ py_str reset_after @ retry_suffix))),
           client)
        \<and> \<not> list_ex guarded_call (fst (fst (AuthVerifyEmailAdapter_handle env client))))"
proof (intro conjI impI; elim conjE)
  assume "CheckLimit (get_client_ip env) ''login'' \<in> set (fst (AuthLoginAdapter_handle env))"
    and "check_limit env (get_client_ip env) ''login'' = (False, remaining, reset_after)"
  then have r: "AuthLoginAdapter_handle env =
          ([CheckLimit (get_client_ip env) ''login'', LoggerWarning],
           Inl (HTTPException 429 (login_limit_prefix @ py_str reset_after @ retry_suffix)))"
    by (rule login_rate_limited)
  show "AuthLoginAdapter_handle env =
          ([CheckLimit (get_client_ip env) ''login'', LoggerWarning],
           Inl (HTTPException 429 (login_limit_prefix @ py_str reset_after @ retry_suffix)))"
    by (rule r)
  show "\<not> list_ex guarded_call (fst (AuthLoginAdapter_handle env))"
    by (simp add: r)
next
  assume "CheckLimit (get_client_ip env) ''register''
      \<in> set (fst (AuthRegisterAdapter_handle env))"
    and "check_limit env (get_client_ip env) ''register'' = (False, remaining, reset_after)"
  then have r: "AuthRegisterAdapter_handle env =
          ([CheckLimit (get_client_ip env) ''register'', LoggerWarning],
           Inl (HTTPException 429 (register_limit_prefix @ py_str reset_after @ retry_suffix)))"
    by (rule register_rate_limited)
  show "AuthRegisterAdapter_handle env =
          ([CheckLimit (get_client_ip env) ''register'', LoggerWarning],
           Inl (HTTPException 429 (register_limit_prefix @ py_str reset_after @ retry_suffix)))"
    by (rule r)
  show "\<not> list_ex guarded_call (fst (AuthRegisterAdapter_handle env))"
    by (simp add: r)
next
  assume "CheckLimit (get_client_ip env) ''verification_send''
      \<in> set (fst (AuthSendVerificationCodeAdapter_handle env))"
    and "check_limit env (get_client_ip env) ''verification_send''
          = (False, remaining, reset_after)"
  then have r: "AuthSendVerificationCodeAdapter_handle env =
          ([CheckLimit (get_client_ip env) ''verification_send'', LoggerWarning],
           Inl (HTTPException 429 (request_limit_prefix @ py_str reset_after @ retry_suffix)))"
    by (rule send_rate_limited)
  show "AuthSendVerificationCodeAdapter_handle env =
          ([CheckLimit (get_client_ip env) ''verification_send'', LoggerWarning],
           Inl (HTTPException 429 (request_limit_prefix @ py_str reset_after @ retry_suffix)))"
    by (rule r)
  show "\<not> list_ex guarded_call (fst (AuthSendVerificationCodeAdapter_handle env))"
    by (simp add: r)
next
  assume "CheckLimit (get_client_ip env) ''verification_verify''
      \<in> set (fst (fst (AuthVerifyEmailAdapter_handle env client)))"
    and "check_limit env (get_client_ip env) ''verification_verify''
          = (False, remaining, reset_after)"
  then have r: "AuthVerifyEmailAdapter_handle env client =
          (([CheckLimit (get_client_ip env) ''verification_verify'', LoggerWarning],
            Inl (HTTPException 429 (request_limit_prefix @ py_str reset_after @ retry_suffix))),
           client)"
    by (rule verify_rate_limited)
  show "AuthVerifyEmailAdapter_handle env client =
          (([CheckLimit (get_client_ip env) ''verification_verify'', LoggerWarning],
            Inl (HTTPException 429 (request_limit_prefix @ py_str reset_after @ retry_suffix))),
           client)"
    by (rule r)
  show "\<not> list_ex guarded_call (fst (fst (AuthVerifyEmailAdapter_handle env client)))"
    by (simp add: r)
qed

lemma py_str_42: "py_str 42 = ''42''"
  by code_simp

lemma limited_env_reaches_limiter:
  "CheckLimit (get_client_ip limited_env) ''login''
     \<in> set (fst (AuthLoginAdapter_handle limited_env))"
  "CheckLimit (get_client_ip limited_env) ''register''
     \<in> set (fst (AuthRegisterAdapter_handle limited_env))"
  "CheckLimit (get_client_ip limited_env) ''verification_send''
     \<in> set (fst (AuthSendVerificationCodeAdapter_handle limited_env))"
  "CheckLimit (get_client_ip limited_env) ''verification_verify''
     \<in> set (fst (fst (AuthVerifyEmailAdapter_handle limited_env (Some (demo_store 0 1800)))))"
  by (simp_all add: limited_env_def AuthLoginAdapter_handle_def AuthRegisterAdapter_handle_def
      AuthSendVerificationCodeAdapter_handle_def AuthVerifyEmailAdapter_handle_def)

theorem rate_limited_request_rejected_witness:
  "AuthLoginAdapter_handle limited_env =
     ([CheckLimit ''10.0.0.1'' ''login'', LoggerWarning],
      Inl (HTTPException 429 (login_limit_prefix @ ''42'' @ retry_suffix)))
   \<and> AuthRegisterAdapter_handle limited_env =
     ([CheckLimit ''10.0.0.1'' ''register'', LoggerWarning],
      Inl (HTTPException 429 (register_limit_prefix @ ''42'' @ retry_suffix)))
   \<and> AuthSendVerificationCodeAdapter_handle limited_env =
     ([CheckLimit ''10.0.0.1'' ''verification_send'', LoggerWarning],
      Inl (HTTPException 429 (request_limit_prefix @ ''42'' @ retry_suffix)))
   \<and> AuthVerifyEmailAdapter_handle limited_env (Some (demo_store 0 1800)) =
     (([CheckLimit ''10.0.0.1'' ''verification_verify'', LoggerWarning],
       Inl (HTTPException 429 (request_limit_prefix @ ''42'' @ retry_suffix))),
      Some (demo_store 0 1800))"
proof -
  have ip: "get_client_ip limited_env = ''10.0.0.1''"
    and lim: "check_limit limited_env ''10.0.0.1'' action = (False, 0, 42)" for action
    by (simp_all add: limited_env_def)
  from rate_limited_request_rejected [of limited_env 0 42 "Some (demo_store 0 1800)"]
    limited_env_reaches_limiter
  show ?thesis
    by (simp add: ip lim py_str_42)
qed

end
